theory Spec2Isabelle
  imports Complex_Main
begin

section \<open>Numbers of the tensor engine\<close>

text \<open>
  The layer computes on floating-point tensors. Tensor elements are modelled as real
  numbers extended with one exceptional value \<open>NaN\<close>: rounding and overflow are not
  modelled, every operation propagates \<open>NaN\<close>, and an operation that has no finite
  real result (division by zero, the square root of a negative number) yields \<open>NaN\<close>.
  Python floats of the configuration (\<open>momentum\<close>, \<open>epsilon\<close>, the clipping bounds)
  are reals.
\<close>

datatype fl = NaN | Fin real

fun fl2 :: "(real \<Rightarrow> real \<Rightarrow> real) \<Rightarrow> fl \<Rightarrow> fl \<Rightarrow> fl" where
  "fl2 f (Fin a) (Fin b) = Fin (f a b)"
| "fl2 f _ _ = NaN"

definition fadd :: "fl \<Rightarrow> fl \<Rightarrow> fl" where
  "fadd = fl2 (+)"

definition fsub :: "fl \<Rightarrow> fl \<Rightarrow> fl" where
  "fsub = fl2 (-)"

definition fmul :: "fl \<Rightarrow> fl \<Rightarrow> fl" where
  "fmul = fl2 (*)"

definition fmax :: "fl \<Rightarrow> fl \<Rightarrow> fl" where
  "fmax = fl2 max"

definition fmin :: "fl \<Rightarrow> fl \<Rightarrow> fl" where
  "fmin = fl2 min"

fun fdiv :: "fl \<Rightarrow> fl \<Rightarrow> fl" where
  "fdiv (Fin a) (Fin b) = (if b = 0 then NaN else Fin (a / b))"
| "fdiv _ _ = NaN"

fun fsqrt :: "fl \<Rightarrow> fl" where
  "fsqrt (Fin a) = (if a < 0 then NaN else Fin (sqrt a))"
| "fsqrt NaN = NaN"

fun frsqrt :: "fl \<Rightarrow> fl" where
  "frsqrt (Fin a) = (if a \<le> 0 then NaN else Fin (1 / sqrt a))"
| "frsqrt NaN = NaN"

fun fsum :: "fl list \<Rightarrow> fl" where
  "fsum [] = Fin 0"
| "fsum (x # xs) = fadd x (fsum xs)"

text \<open>The mean of no element is \<open>0 / 0\<close>, which is \<open>NaN\<close>.\<close>

definition fmean :: "fl list \<Rightarrow> fl" where
  "fmean xs = fdiv (fsum xs) (Fin (real (length xs)))"

section \<open>Errors\<close>

text \<open>
  Every \<open>raise\<close> of the source is a value. The \<open>ValueError\<close>s of the layer are told
  apart by the place that raises them; \<open>InvalidArgument\<close> is an error of the tensor
  engine (shapes that do not broadcast, a reshape that does not fit).
\<close>

datatype value_error =
    FusedWithRenorm
  | FusedAxis
  | FusedWithVirtualBatch
  | FusedWithAdjustment
  | FusedDtype
  | RenormClippingKeys
  | UndefinedRank
  | InvalidAxis
  | DuplicateAxis
  | VirtualBatchNotPositive
  | VirtualBatchAxisZero
  | VirtualBatchWithAdjustment
  | FusedRank
  | UnsupportedAxis4D
  | UnsupportedAxis5D
  | UndefinedAxisDim

datatype error =
    ValueError value_error
  | IndexError
  | TypeError
  | AttributeError
  | AssertionError
  | InvalidArgument

definition thn :: "error + 'a \<Rightarrow> ('a \<Rightarrow> error + 'b) \<Rightarrow> error + 'b" where
  "thn m f = (case m of Inl e \<Rightarrow> Inl e | Inr x \<Rightarrow> f x)"

section \<open>Tensors\<close>

text \<open>
  A tensor is its shape and its elements in row-major order, as the engine stores them.
  A scalar has the empty shape and one element.
\<close>

record tensor =
  shape :: "nat list"
  vals :: "fl list"

definition wf :: "tensor \<Rightarrow> bool" where
  "wf t = (length (vals t) = prod_list (shape t))"

definition tconstant :: "real \<Rightarrow> tensor" where
  "tconstant r = \<lparr>shape = [], vals = [Fin r]\<rparr>"

definition zeros_like :: "tensor \<Rightarrow> tensor" where
  "zeros_like t = \<lparr>shape = shape t, vals = map (\<lambda>_. Fin 0) (vals t)\<rparr>"

definition ones_like :: "tensor \<Rightarrow> tensor" where
  "ones_like t = \<lparr>shape = shape t, vals = map (\<lambda>_. Fin 1) (vals t)\<rparr>"

definition tmap :: "(fl \<Rightarrow> fl) \<Rightarrow> tensor \<Rightarrow> tensor" where
  "tmap f t = \<lparr>shape = shape t, vals = map f (vals t)\<rparr>"

text \<open>All indices of a shape, in row-major order, and the position of an index.\<close>

fun indices :: "nat list \<Rightarrow> nat list list" where
  "indices [] = [[]]"
| "indices (n # ns) = concat (map (\<lambda>i. map ((#) i) (indices ns)) [0..<n])"

fun flat_index :: "nat list \<Rightarrow> nat list \<Rightarrow> nat" where
  "flat_index (n # ns) (i # js) = i * prod_list ns + flat_index ns js"
| "flat_index _ _ = 0"

definition tget :: "tensor \<Rightarrow> nat list \<Rightarrow> fl" where
  "tget t idx = vals t ! flat_index (shape t) idx"

text \<open>
  Broadcasting: shapes are aligned at their last dimension; two dimensions are
  compatible when they are equal or one of them is 1.
\<close>

definition bdim :: "nat \<Rightarrow> nat \<Rightarrow> nat option" where
  "bdim a b = (if a = b then Some a else if a = 1 then Some b
               else if b = 1 then Some a else None)"

fun bshape_rev :: "nat list \<Rightarrow> nat list \<Rightarrow> nat list option" where
  "bshape_rev [] bs = Some bs"
| "bshape_rev (a # as) [] = Some (a # as)"
| "bshape_rev (a # as) (b # bs) =
     (case bdim a b of None \<Rightarrow> None
      | Some d \<Rightarrow> (case bshape_rev as bs of None \<Rightarrow> None | Some ds \<Rightarrow> Some (d # ds)))"

definition broadcast_shape :: "nat list \<Rightarrow> nat list \<Rightarrow> nat list option" where
  "broadcast_shape s1 s2 = map_option rev (bshape_rev (rev s1) (rev s2))"

text \<open>The index into an operand of shape \<open>sh\<close> that an index of the result reads.\<close>

definition bidx :: "nat list \<Rightarrow> nat list \<Rightarrow> nat list" where
  "bidx sh idx =
     map2 (\<lambda>d i. if d = 1 then 0 else i) sh (drop (length idx - length sh) idx)"

definition tbinop :: "(fl \<Rightarrow> fl \<Rightarrow> fl) \<Rightarrow> tensor \<Rightarrow> tensor \<Rightarrow> error + tensor" where
  "tbinop f a b =
     (case broadcast_shape (shape a) (shape b) of
        None \<Rightarrow> Inl InvalidArgument
      | Some s \<Rightarrow>
          Inr \<lparr>shape = s,
               vals = map (\<lambda>idx. f (tget a (bidx (shape a) idx)) (tget b (bidx (shape b) idx)))
                          (indices s)\<rparr>)"

definition tadd :: "tensor \<Rightarrow> tensor \<Rightarrow> error + tensor" where
  "tadd = tbinop fadd"

definition tsub :: "tensor \<Rightarrow> tensor \<Rightarrow> error + tensor" where
  "tsub = tbinop fsub"

definition tmul :: "tensor \<Rightarrow> tensor \<Rightarrow> error + tensor" where
  "tmul = tbinop fmul"

definition tdiv :: "tensor \<Rightarrow> tensor \<Rightarrow> error + tensor" where
  "tdiv = tbinop fdiv"

definition tmaximum :: "tensor \<Rightarrow> tensor \<Rightarrow> error + tensor" where
  "tmaximum = tbinop fmax"

definition tminimum :: "tensor \<Rightarrow> tensor \<Rightarrow> error + tensor" where
  "tminimum = tbinop fmin"

text \<open>\<open>tf.where\<close> with a scalar condition selects one of two tensors of one shape.\<close>

definition twhere :: "bool \<Rightarrow> tensor \<Rightarrow> tensor \<Rightarrow> error + tensor" where
  "twhere c x y = (if shape x \<noteq> shape y then Inl InvalidArgument else Inr (if c then x else y))"

text \<open>\<open>assign_sub\<close> and \<open>assign\<close> need a value of the variable's shape.\<close>

definition assign_sub :: "tensor \<Rightarrow> tensor \<Rightarrow> error + tensor" where
  "assign_sub variable delta =
     (if shape delta \<noteq> shape variable then Inl InvalidArgument
      else tsub variable delta)"

definition assign :: "tensor \<Rightarrow> tensor \<Rightarrow> error + tensor" where
  "assign variable v = (if shape v \<noteq> shape variable then Inl InvalidArgument else Inr v)"

section \<open>The moving-average update\<close>

text \<open>
  \<open>_assign_moving_average(variable, value, momentum, inputs_size)\<close>; the result is
  the variable's new value. Casts between dtypes do not change a value here.
\<close>

definition calculate_update_delta ::
  "tensor \<Rightarrow> tensor \<Rightarrow> real \<Rightarrow> nat option \<Rightarrow> error + tensor" where
  "calculate_update_delta variable v momentum inputs_size =
     (let decay = tconstant (1 - momentum) in
      thn (tsub variable v) (\<lambda>diff.
      thn (tmul diff decay) (\<lambda>update_delta.
        case inputs_size of
          None \<Rightarrow> Inr update_delta
        | Some n \<Rightarrow> twhere (n > 0) update_delta (zeros_like update_delta))))"

definition assign_moving_average ::
  "tensor \<Rightarrow> tensor \<Rightarrow> real \<Rightarrow> nat option \<Rightarrow> error + tensor" where
  "assign_moving_average variable v momentum inputs_size =
     thn (calculate_update_delta variable v momentum inputs_size) (assign_sub variable)"

definition assign_new_value :: "tensor \<Rightarrow> tensor \<Rightarrow> error + tensor" where
  "assign_new_value variable v = assign variable v"

text \<open>
  \<open>tf.reshape\<close>: at most one entry of the requested shape is \<open>-1\<close> and is inferred
  from the number of elements. The elements keep their row-major order.
\<close>

definition reshape :: "tensor \<Rightarrow> int list \<Rightarrow> error + tensor" where
  "reshape t sh =
     (let known = filter (\<lambda>d. d \<noteq> -1) sh;
          total = int (prod_list (shape t));
          p = prod_list known
      in if length (filter (\<lambda>d. d = -1) sh) > 1 \<or> list_ex (\<lambda>d. d < 0) known
         then Inl InvalidArgument
         else if list_ex (\<lambda>d. d = -1) sh
         then (if p = 0 \<or> total mod p \<noteq> 0 then Inl InvalidArgument
               else Inr (t\<lparr>shape := map (\<lambda>d. nat (if d = -1 then total div p else d)) sh\<rparr>))
         else if p = total then Inr (t\<lparr>shape := map nat sh\<rparr>)
         else Inl InvalidArgument)"

section \<open>The layer\<close>

text \<open>
  The \<open>axis\<close> argument is an integer or a list of integers, as the class documents it.
  \<open>build\<close> turns it into a list of non-negative integers.
\<close>

datatype axis_val = AxisInt int | AxisList "int list"

text \<open>
  A value for \<open>training\<close>: a Python boolean, a Python integer, or a value only known
  when the graph runs (with the value it then has). The \<open>training\<close> argument of
  \<open>call\<close> is such a value or \<open>None\<close>.
\<close>

datatype training = PyBool bool | PyInt int | RuntimeDecided bool

text \<open>The arguments of \<open>__init__\<close>; an initializer maps a shape to a tensor.\<close>

record bn_args =
  arg_axis :: axis_val
  arg_momentum :: real
  arg_epsilon :: real
  arg_center :: bool
  arg_scale :: bool
  arg_beta_initializer :: "nat list \<Rightarrow> tensor"
  arg_gamma_initializer :: "nat list \<Rightarrow> tensor"
  arg_moving_mean_initializer :: "nat list \<Rightarrow> tensor"
  arg_moving_variance_initializer :: "nat list \<Rightarrow> tensor"
  arg_renorm :: bool
  arg_renorm_clipping :: "(string \<times> real) list option"
  arg_renorm_momentum :: real
  arg_fused :: "bool option"
  arg_trainable :: bool
  arg_virtual_batch_size :: "int option"
  arg_adjustment :: "(nat list \<Rightarrow> tensor \<times> tensor) option"

text \<open>
  The attributes of a layer object. \<open>use_v2_behavior\<close> is the class attribute
  \<open>_USE_V2_BEHAVIOR\<close> (true in \<open>BatchNormalizationBase\<close>, false in the V1 subclass
  \<open>BatchNormalization\<close>); \<open>compute_dtype\<close> is \<open>_compute_dtype\<close>, the name of the
  dtype of the layer's policy; \<open>support_zero_size_input\<close> is what
  \<open>_support_zero_size_input()\<close> returns under the current distribution strategy and
  \<open>learning_phase\<close> what \<open>backend.learning_phase()\<close> returns. An attribute that
  has not been set is \<open>None\<close>.
\<close>

record layer =
  use_v2_behavior :: bool
  compute_dtype :: "string option"
  support_zero_size_input :: bool
  learning_phase :: training
  axis :: axis_val
  momentum :: real
  epsilon :: real
  center :: bool
  scale :: bool
  beta_initializer :: "nat list \<Rightarrow> tensor"
  gamma_initializer :: "nat list \<Rightarrow> tensor"
  moving_mean_initializer :: "nat list \<Rightarrow> tensor"
  moving_variance_initializer :: "nat list \<Rightarrow> tensor"
  renorm :: bool
  virtual_batch_size :: "int option"
  adjustment :: "(nat list \<Rightarrow> tensor \<times> tensor) option"
  fused :: "bool option"
  bessels_correction_test_only :: bool
  trainable :: bool
  renorm_clipping :: "(string \<times> real) list option"
  renorm_momentum :: "real option"
  data_format :: "string option"
  gamma :: "tensor option"
  beta :: "tensor option"
  gamma_const :: "tensor option"
  beta_const :: "tensor option"
  moving_mean :: "tensor option"
  moving_variance :: "tensor option"
  moving_stddev :: "tensor option"
  renorm_mean :: "tensor option"
  renorm_stddev :: "tensor option"
  built :: bool

definition axis_list :: "axis_val \<Rightarrow> int list" where
  "axis_list a = (case a of AxisInt x \<Rightarrow> [x] | AxisList xs \<Rightarrow> xs)"

text \<open>
  \<open>_raise_if_fused_cannot_be_used\<close>: \<open>Inr ()\<close> when it returns. \<open>axis[0]\<close> of an
  empty list raises \<open>IndexError\<close>.
\<close>

definition raise_if_fused_cannot_be_used :: "layer \<Rightarrow> error + unit" where
  "raise_if_fused_cannot_be_used l =
     (if renorm l then Inl (ValueError FusedWithRenorm)
      else let ax = axis_list (axis l) in
        if length ax > 1 then Inl (ValueError FusedAxis)
        else case ax of
          [] \<Rightarrow> Inl IndexError
        | x # _ \<Rightarrow>
            if x \<notin> {-4, -3, -1, 1, 3, 4} then Inl (ValueError FusedAxis)
            else if virtual_batch_size l \<noteq> None then Inl (ValueError FusedWithVirtualBatch)
            else if adjustment l \<noteq> None then Inl (ValueError FusedWithAdjustment)
            else if compute_dtype l \<notin>
                      {Some ''float16'', Some ''bfloat16'', Some ''float32'', None}
              then Inl (ValueError FusedDtype)
            else Inr ())"

text \<open>\<open>_fused_can_be_used\<close> catches \<open>ValueError\<close> and nothing else.\<close>

definition fused_can_be_used :: "layer \<Rightarrow> error + bool" where
  "fused_can_be_used l =
     (case raise_if_fused_cannot_be_used l of
        Inr _ \<Rightarrow> Inr True
      | Inl (ValueError _) \<Rightarrow> Inr False
      | Inl e \<Rightarrow> Inl e)"

text \<open>\<open>__init__\<close>, for a class with the given \<open>_USE_V2_BEHAVIOR\<close>.\<close>

definition init_fused :: "layer \<Rightarrow> bool option \<Rightarrow> error + bool option" where
  "init_fused l fsd =
     (if use_v2_behavior l then
        (if fsd = Some True then thn (raise_if_fused_cannot_be_used l) (\<lambda>_. Inr fsd)
         else if fsd = None then
           thn (fused_can_be_used l) (\<lambda>ok. Inr (if \<not> ok then Some False else fsd))
         else Inr fsd)
      else if fsd = None then Inr (Some True)
      else Inr fsd)"

definition init_renorm_clipping :: "layer \<Rightarrow> bn_args \<Rightarrow> error + layer" where
  "init_renorm_clipping l a =
     (if arg_renorm a then
        (let clipping = (case arg_renorm_clipping a of None \<Rightarrow> [] | Some c \<Rightarrow> c);
             keys = [''rmax'', ''rmin'', ''dmax'']
         in if set (map fst clipping) - set keys \<noteq> {}
            then Inl (ValueError RenormClippingKeys)
            else Inr (l\<lparr>renorm_clipping := Some clipping,
                        renorm_momentum := Some (arg_renorm_momentum a)\<rparr>))
      else Inr l)"

definition init_attributes ::
  "bool \<Rightarrow> string option \<Rightarrow> bool \<Rightarrow> training \<Rightarrow> bn_args \<Rightarrow> layer" where
  "init_attributes v2 dtype zero_size phase a =
     \<lparr>use_v2_behavior = v2, compute_dtype = dtype,
      support_zero_size_input = zero_size, learning_phase = phase,
      axis = arg_axis a, momentum = arg_momentum a, epsilon = arg_epsilon a,
      center = arg_center a, scale = arg_scale a,
      beta_initializer = arg_beta_initializer a,
      gamma_initializer = arg_gamma_initializer a,
      moving_mean_initializer = arg_moving_mean_initializer a,
      moving_variance_initializer = arg_moving_variance_initializer a,
      renorm = arg_renorm a, virtual_batch_size = arg_virtual_batch_size a,
      adjustment = arg_adjustment a, fused = None,
      bessels_correction_test_only = True, trainable = True,
      renorm_clipping = None, renorm_momentum = None, data_format = None,
      gamma = None, beta = None, gamma_const = None, beta_const = None,
      moving_mean = None, moving_variance = None, moving_stddev = None,
      renorm_mean = None, renorm_stddev = None, built = False\<rparr>"

definition init :: "bool \<Rightarrow> string option \<Rightarrow> bool \<Rightarrow> training \<Rightarrow> bn_args \<Rightarrow> error + layer" where
  "init v2 dtype zero_size phase a =
     (let l0 = init_attributes v2 dtype zero_size phase a
      in thn (init_fused l0 (arg_fused a)) (\<lambda>fsd.
         init_renorm_clipping (l0\<lparr>fused := fsd, trainable := arg_trainable a\<rparr>) a))"

text \<open>
  \<open>build(input_shape)\<close>. The shape is \<open>None\<close> when its rank is unknown, and a
  dimension is \<open>None\<close> when its size is.
\<close>

definition resolve_axis :: "nat \<Rightarrow> int list \<Rightarrow> int list" where
  "resolve_axis ndims ax = map (\<lambda>x. if x < 0 then int ndims + x else x) ax"

definition build_virtual_batch_checks :: "layer \<Rightarrow> int list \<Rightarrow> error + unit" where
  "build_virtual_batch_checks l ax =
     (case virtual_batch_size l of
        None \<Rightarrow> Inr ()
      | Some v \<Rightarrow>
          if v \<le> 0 then Inl (ValueError VirtualBatchNotPositive)
          else if 0 \<in> set ax then Inl (ValueError VirtualBatchAxisZero)
          else if adjustment l \<noteq> None then Inl (ValueError VirtualBatchWithAdjustment)
          else Inr ())"

text \<open>The choice of the fused path once the rank is known; \<open>l\<close> has its axis resolved.\<close>

definition build_fused :: "layer \<Rightarrow> nat \<Rightarrow> error + bool option" where
  "build_fused l ndims =
     (if fused l = None \<or> fused l = Some True then
        (if use_v2_behavior l then
           (if fused l = None then Inr (Some (ndims \<in> {4, 5}))
            else if ndims \<notin> {4, 5} then Inl (ValueError FusedRank)
            else Inr (fused l))
         else if fused l = None then Inl AssertionError
         else if ndims \<in> {4, 5} then thn (fused_can_be_used l) (\<lambda>ok. Inr (Some ok))
         else Inr (Some False))
      else Inr (fused l))"

definition build_data_format :: "layer \<Rightarrow> nat \<Rightarrow> error + layer" where
  "build_data_format l ndims =
     (if fused l = Some True then
        (if axis l = AxisList [1] \<and> ndims = 4 then Inr (l\<lparr>data_format := Some ''NCHW''\<rparr>)
         else if axis l = AxisList [1] \<and> ndims = 5 then Inr (l\<lparr>data_format := Some ''NCDHW''\<rparr>)
         else if axis l = AxisList [3] \<and> ndims = 4 then Inr (l\<lparr>data_format := Some ''NHWC''\<rparr>)
         else if axis l = AxisList [4] \<and> ndims = 5 then Inr (l\<lparr>data_format := Some ''NDHWC''\<rparr>)
         else if ndims = 5 then Inr (l\<lparr>fused := Some False\<rparr>)
         else if ndims = 4 then Inl (ValueError UnsupportedAxis4D)
         else Inl (ValueError UnsupportedAxis5D))
      else Inr l)"

definition list_insert :: "nat \<Rightarrow> 'a \<Rightarrow> 'a list \<Rightarrow> 'a list" where
  "list_insert k x xs = take k xs @ [x] @ drop k xs"

text \<open>
  The shape of the parameters and the axis list after it (shifted by one under virtual
  batching); \<open>ax\<close> is valid for \<open>dims\<close>.
\<close>

definition build_param_shape ::
  "int list \<Rightarrow> nat option list \<Rightarrow> int option \<Rightarrow> error + (nat list \<times> int list)" where
  "build_param_shape ax dims vbs =
     (let axis_to_dim = map (\<lambda>x. (x, dims ! nat x)) ax;
          dim_at = (\<lambda>i. case map_of axis_to_dim i of Some (Some d) \<Rightarrow> d | _ \<Rightarrow> 1)
      in if list_ex (\<lambda>xd. snd xd = None) axis_to_dim then Inl (ValueError UndefinedAxisDim)
         else if length axis_to_dim = 1 \<and> vbs = None then Inr ([dim_at (hd ax)], ax)
         else let param_shape = map (\<lambda>i. dim_at (int i)) [0..<length dims] in
           if vbs \<noteq> None then Inr (list_insert 1 1 param_shape, map (\<lambda>x. x + 1) ax)
           else Inr (param_shape, ax))"

definition tfill :: "nat list \<Rightarrow> real \<Rightarrow> tensor" where
  "tfill sh r = \<lparr>shape = sh, vals = replicate (prod_list sh) (Fin r)\<rparr>"

definition build_weights :: "layer \<Rightarrow> nat list \<Rightarrow> layer" where
  "build_weights l param_shape =
     (let moving_stddev_initializer = (\<lambda>sh. tmap fsqrt (moving_variance_initializer l sh));
          l1 = l\<lparr>gamma := (if scale l then Some (gamma_initializer l param_shape) else None),
                 gamma_const := (if \<not> scale l \<and> fused l = Some True
                                 then Some (tfill param_shape 1) else None),
                 beta := (if center l then Some (beta_initializer l param_shape) else None),
                 beta_const := (if \<not> center l \<and> fused l = Some True
                                then Some (tfill param_shape 0) else None),
                 moving_mean := Some (moving_mean_initializer l param_shape),
                 moving_variance := Some (moving_variance_initializer l param_shape)\<rparr>;
          l2 = (if renorm l
                then l1\<lparr>moving_stddev := Some (moving_stddev_initializer param_shape),
                        renorm_mean := Some (moving_mean_initializer l param_shape),
                        renorm_stddev := Some (moving_stddev_initializer param_shape)\<rparr>
                else l1)
      in l2\<lparr>built := True\<rparr>)"

text \<open>\<open>build\<close> from the choice of the path on; \<open>ax\<close> is the resolved axis list.\<close>

definition build_from_fused :: "layer \<Rightarrow> nat option list \<Rightarrow> int list \<Rightarrow> error + layer" where
  "build_from_fused l dims ax =
     thn (build_fused (l\<lparr>axis := AxisList ax\<rparr>) (length dims)) (\<lambda>fsd.
     thn (build_data_format (l\<lparr>axis := AxisList ax, fused := fsd\<rparr>) (length dims)) (\<lambda>l2.
     thn (build_param_shape ax dims (virtual_batch_size l2)) (\<lambda>(param_shape, ax').
       Inr (build_weights (l2\<lparr>axis := AxisList ax'\<rparr>) param_shape))))"

definition build :: "layer \<Rightarrow> nat option list option \<Rightarrow> error + layer" where
  "build l input_shape =
     (case input_shape of
        None \<Rightarrow> Inl (ValueError UndefinedRank)
      | Some dims \<Rightarrow>
          let ndims = length dims in
          if ndims = 0 then Inl (ValueError UndefinedRank)
          else let ax = resolve_axis ndims (axis_list (axis l)) in
            if list_ex (\<lambda>x. x < 0 \<or> x \<ge> int ndims) ax then Inl (ValueError InvalidAxis)
            else if \<not> distinct ax then Inl (ValueError DuplicateAxis)
            else thn (build_virtual_batch_checks l ax) (\<lambda>_. build_from_fused l dims ax))"

text \<open>
  Constructing a layer and building it for an input shape, as the first call of a layer
  does; the initializers \<open>'zeros'\<close> and \<open>'ones'\<close>; the default arguments of
  \<open>__init__\<close>.
\<close>

definition make_layer ::
  "bool \<Rightarrow> string option \<Rightarrow> bool \<Rightarrow> training \<Rightarrow> bn_args \<Rightarrow> nat option list option
   \<Rightarrow> error + layer" where
  "make_layer v2 dtype zero_size phase a input_shape =
     thn (init v2 dtype zero_size phase a) (\<lambda>l. build l input_shape)"

definition zeros_initializer :: "nat list \<Rightarrow> tensor" where
  "zeros_initializer sh = tfill sh 0"

definition ones_initializer :: "nat list \<Rightarrow> tensor" where
  "ones_initializer sh = tfill sh 1"

definition default_args :: bn_args where
  "default_args =
     \<lparr>arg_axis = AxisInt (-1), arg_momentum = 99 / 100, arg_epsilon = 1 / 1000,
      arg_center = True, arg_scale = True,
      arg_beta_initializer = zeros_initializer, arg_gamma_initializer = ones_initializer,
      arg_moving_mean_initializer = zeros_initializer,
      arg_moving_variance_initializer = ones_initializer,
      arg_renorm = False, arg_renorm_clipping = None, arg_renorm_momentum = 99 / 100,
      arg_fused = None, arg_trainable = True, arg_virtual_batch_size = None,
      arg_adjustment = None\<rparr>"






section \<open>Reductions and moments of the tensor engine\<close>

text \<open>
  \<open>tf.reduce_mean(t, axes, keepdims)\<close>: the element of the result at an index is the
  mean of the elements of \<open>t\<close> whose index agrees with it outside the reduced axes.
\<close>

definition reduced_shape :: "nat list \<Rightarrow> nat list \<Rightarrow> nat list" where
  "reduced_shape sh axes = map (\<lambda>i. if i \<in> set axes then 1 else sh ! i) [0..<length sh]"

definition squeezed_shape :: "nat list \<Rightarrow> nat list \<Rightarrow> nat list" where
  "squeezed_shape sh axes = map (\<lambda>i. sh ! i) (filter (\<lambda>i. i \<notin> set axes) [0..<length sh])"

definition agrees :: "nat list \<Rightarrow> nat list \<Rightarrow> nat list \<Rightarrow> bool" where
  "agrees axes oidx idx =
     list_all (\<lambda>i. i \<in> set axes \<or> idx ! i = oidx ! i) [0..<length idx]"

definition reduce_mean :: "tensor \<Rightarrow> nat list \<Rightarrow> bool \<Rightarrow> error + tensor" where
  "reduce_mean t axes keepdims =
     (if list_ex (\<lambda>a. a \<ge> length (shape t)) axes then Inl InvalidArgument
      else Inr \<lparr>shape = (if keepdims then reduced_shape (shape t) axes
                          else squeezed_shape (shape t) axes),
               vals = map (\<lambda>oidx. fmean (map (tget t)
                                   (filter (agrees axes oidx) (indices (shape t)))))
                          (indices (reduced_shape (shape t) axes))\<rparr>)"

definition squared_difference :: "tensor \<Rightarrow> tensor \<Rightarrow> error + tensor" where
  "squared_difference = tbinop (\<lambda>a b. fmul (fsub a b) (fsub a b))"

text \<open>
  \<open>tf.nn.moments(x, axes, keep_dims)\<close>: the mean, and the mean of the squared
  difference to it, both with the reduced dimensions kept, then squeezed unless
  \<open>keep_dims\<close>.
\<close>

definition squeeze :: "tensor \<Rightarrow> nat list \<Rightarrow> tensor" where
  "squeeze t axes = t\<lparr>shape := squeezed_shape (shape t) axes\<rparr>"

definition nn_moments :: "tensor \<Rightarrow> nat list \<Rightarrow> bool \<Rightarrow> error + (tensor \<times> tensor)" where
  "nn_moments x axes keep_dims =
     thn (reduce_mean x axes True) (\<lambda>mean.
     thn (squared_difference x mean) (\<lambda>sq.
     thn (reduce_mean sq axes True) (\<lambda>variance.
       Inr (if keep_dims then (mean, variance)
            else (squeeze mean axes, squeeze variance axes)))))"

text \<open>
  \<open>tf.nn.batch_normalization(x, mean, variance, offset, scale, variance_epsilon)\<close>
  computes \<open>x * inv + (offset - mean * inv)\<close> with
  \<open>inv = rsqrt(variance + variance_epsilon) * scale\<close>; an absent scale is left out
  and an absent offset is taken as zero.
\<close>

definition batch_normalization ::
  "tensor \<Rightarrow> tensor \<Rightarrow> tensor \<Rightarrow> tensor option \<Rightarrow> tensor option \<Rightarrow> real \<Rightarrow> error + tensor" where
  "batch_normalization x mean variance offset scl variance_epsilon =
     thn (tadd variance (tconstant variance_epsilon)) (\<lambda>ve.
     thn (case scl of None \<Rightarrow> Inr (tmap frsqrt ve) | Some g \<Rightarrow> tmul (tmap frsqrt ve) g) (\<lambda>inv.
     thn (tmul x inv) (\<lambda>x_inv.
     thn (tmul mean inv) (\<lambda>mean_inv.
     thn (case offset of
            None \<Rightarrow> Inr (tmap (\<lambda>v. fsub (Fin 0) v) mean_inv)
          | Some b \<Rightarrow> tsub b mean_inv) (\<lambda>shift.
       tadd x_inv shift)))))"

section \<open>The training value\<close>

text \<open>
  Modelled from the spec: \<open>constant_value\<close> and \<open>smart_cond\<close> of
  \<open>keras.utils.control_flow_util\<close> are not among the sources. The specification names
  three states of the training value: true, false, and decided at run time.
  \<open>constant_value\<close> is the value when it is known before the graph runs, and
  \<open>smart_cond(training, f, g)\<close> runs \<open>f\<close> when the value (known or found at run
  time) is true and \<open>g\<close> otherwise, which is \<open>if run_value training then f else g\<close>.
\<close>

definition constant_value :: "training \<Rightarrow> bool option" where
  "constant_value t =
     (case t of PyBool b \<Rightarrow> Some b | PyInt i \<Rightarrow> Some (i \<noteq> 0) | RuntimeDecided _ \<Rightarrow> None)"

definition run_value :: "training \<Rightarrow> bool" where
  "run_value t = (case t of PyBool b \<Rightarrow> b | PyInt i \<Rightarrow> i \<noteq> 0 | RuntimeDecided b \<Rightarrow> b)"

text \<open>\<open>_get_training_value\<close>; every Python boolean is an \<open>int\<close>.\<close>

definition get_training_value :: "layer \<Rightarrow> training option \<Rightarrow> training" where
  "get_training_value l tr =
     (let t0 = (case tr of None \<Rightarrow> learning_phase l | Some t \<Rightarrow> t) in
      if use_v2_behavior l then
        (let t1 = (case t0 of PyInt i \<Rightarrow> PyBool (i \<noteq> 0) | _ \<Rightarrow> t0)
         in if \<not> trainable l then PyBool False else t1)
      else t0)"

section \<open>Renormalization\<close>

definition the_var :: "tensor option \<Rightarrow> error + tensor" where
  "the_var v = (case v of None \<Rightarrow> Inl AttributeError | Some t \<Rightarrow> Inr t)"

definition update_renorm_variable ::
  "layer \<Rightarrow> tensor \<Rightarrow> tensor \<Rightarrow> training \<Rightarrow> nat option \<Rightarrow> error + tensor" where
  "update_renorm_variable l var v tr inputs_size =
     (if run_value tr then
        (case renorm_momentum l of
           None \<Rightarrow> Inl AttributeError
         | Some m \<Rightarrow> assign_moving_average var v m inputs_size)
      else Inr var)"

definition clip_r :: "(string \<times> real) list \<Rightarrow> tensor \<Rightarrow> error + tensor" where
  "clip_r clipping r =
     thn (case map_of clipping ''rmin'' of
            None \<Rightarrow> Inr r | Some rmin \<Rightarrow> tmaximum r (tconstant rmin)) (\<lambda>r1.
       case map_of clipping ''rmax'' of
         None \<Rightarrow> Inr r1 | Some rmax \<Rightarrow> tminimum r1 (tconstant rmax))"

definition clip_d :: "(string \<times> real) list \<Rightarrow> tensor \<Rightarrow> error + tensor" where
  "clip_d clipping d =
     (case map_of clipping ''dmax'' of
        None \<Rightarrow> Inr d
      | Some dmax \<Rightarrow> thn (tmaximum d (tconstant (- dmax))) (\<lambda>d1. tminimum d1 (tconstant dmax)))"

text \<open>
  \<open>_renorm_correction_and_moments\<close>: the result \<open>(r, d, out_mean, out_variance)\<close>
  and the layer with its renorm variables updated.
\<close>

definition renorm_correction_and_moments ::
  "layer \<Rightarrow> tensor \<Rightarrow> tensor \<Rightarrow> training \<Rightarrow> nat option
   \<Rightarrow> error + ((tensor \<times> tensor \<times> tensor \<times> tensor) \<times> layer)" where
  "renorm_correction_and_moments l mean variance tr inputs_size =
     thn (tadd variance (tconstant (epsilon l))) (\<lambda>ve.
     let stddev = tmap fsqrt ve in
     thn (the_var (renorm_mean l)) (\<lambda>renorm_mean_var.
     thn (the_var (renorm_stddev l)) (\<lambda>renorm_stddev_var.
     thn (tmaximum renorm_stddev_var (tmap fsqrt (tconstant (epsilon l)))) (\<lambda>renorm_stddev_floor.
     thn (tdiv stddev renorm_stddev_floor) (\<lambda>r0.
     thn (tsub mean renorm_mean_var) (\<lambda>diff.
     thn (tdiv diff renorm_stddev_floor) (\<lambda>d0.
     thn (case renorm_clipping l of None \<Rightarrow> Inl AttributeError | Some c \<Rightarrow> Inr c) (\<lambda>clipping.
     thn (clip_r clipping r0) (\<lambda>r1.
     thn (clip_d clipping d0) (\<lambda>d1.
     let r = (if run_value tr then r1 else ones_like r1);
         d = (if run_value tr then d1 else zeros_like d1) in
     thn (update_renorm_variable l renorm_mean_var mean tr inputs_size) (\<lambda>update_new_mean.
     thn (update_renorm_variable l renorm_stddev_var stddev tr inputs_size) (\<lambda>update_new_stddev.
       Inr ((r, d, mean, variance),
            l\<lparr>renorm_mean := Some update_new_mean,
              renorm_stddev := Some update_new_stddev\<rparr>)))))))))))))"

text \<open>
  The correction as the specification words it, for one element: \<open>stddev\<close> is
  \<open>sqrt(variance + epsilon)\<close>, the stored \<open>renorm_stddev\<close> is floored at
  \<open>sqrt(epsilon)\<close>, \<open>r = stddev / renorm_stddev\<close> and
  \<open>d = (mean - renorm_mean) / renorm_stddev\<close>, \<open>r\<close> is clipped to
  \<open>[rmin, rmax]\<close> and \<open>d\<close> to \<open>[-dmax, dmax]\<close> for the bounds that are
  configured, and outside training \<open>r = 1\<close> and \<open>d = 0\<close>.
\<close>

definition spec_renorm_r :: "real \<Rightarrow> (string \<times> real) list \<Rightarrow> bool \<Rightarrow> fl \<Rightarrow> fl \<Rightarrow> fl" where
  "spec_renorm_r eps clipping is_training variance renorm_stddev_k =
     (if \<not> is_training then Fin 1
      else let stddev = fsqrt (fadd variance (Fin eps));
               floored = fmax renorm_stddev_k (fsqrt (Fin eps));
               r = fdiv stddev floored;
               r_lo = (case map_of clipping ''rmin'' of None \<Rightarrow> r | Some rmin \<Rightarrow> fmax r (Fin rmin))
           in (case map_of clipping ''rmax'' of None \<Rightarrow> r_lo | Some rmax \<Rightarrow> fmin r_lo (Fin rmax)))"

definition spec_renorm_d ::
  "real \<Rightarrow> (string \<times> real) list \<Rightarrow> bool \<Rightarrow> fl \<Rightarrow> fl \<Rightarrow> fl \<Rightarrow> fl" where
  "spec_renorm_d eps clipping is_training mean_k renorm_mean_k renorm_stddev_k =
     (if \<not> is_training then Fin 0
      else let floored = fmax renorm_stddev_k (fsqrt (Fin eps));
               d = fdiv (fsub mean_k renorm_mean_k) floored
           in (case map_of clipping ''dmax'' of
                 None \<Rightarrow> d
               | Some dmax \<Rightarrow> fmin (fmax d (Fin (- dmax))) (Fin dmax)))"

text \<open>A layer with renorm variables of two elements, to evaluate the correction on.\<close>

definition renorm_example_layer :: layer where
  "renorm_example_layer =
     (init_attributes True None False (PyBool False) default_args)
       \<lparr>epsilon := 1,
        renorm_clipping := Some [(''rmin'', 1 / 2), (''rmax'', 3 / 2), (''dmax'', 3)],
        renorm_momentum := Some (99 / 100),
        renorm_mean := Some \<lparr>shape = [2], vals = [Fin 1, Fin 1]\<rparr>,
        renorm_stddev := Some \<lparr>shape = [2], vals = [Fin (1 / 2), Fin 4]\<rparr>\<rparr>"

section \<open>The moment calculator of the layer\<close>

text \<open>\<open>tf.shape(inputs)[0]\<close>, the size of the batch dimension.\<close>

definition batch_size :: "tensor \<Rightarrow> error + nat" where
  "batch_size t = (case shape t of [] \<Rightarrow> Inl InvalidArgument | n # _ \<Rightarrow> Inr n)"

definition calculate_mean_and_var ::
  "tensor \<Rightarrow> nat list \<Rightarrow> bool \<Rightarrow> error + (tensor \<times> tensor)" where
  "calculate_mean_and_var inputs reduction_axes keep_dims =
     nn_moments inputs reduction_axes keep_dims"

text \<open>\<open>_moments\<close>.\<close>

definition moments ::
  "layer \<Rightarrow> tensor \<Rightarrow> nat list \<Rightarrow> bool \<Rightarrow> error + (tensor \<times> tensor)" where
  "moments l inputs reduction_axes keep_dims =
     thn (calculate_mean_and_var inputs reduction_axes keep_dims) (\<lambda>(mean, variance).
       if support_zero_size_input l then
         thn (batch_size inputs) (\<lambda>input_batch_size.
         thn (twhere (input_batch_size > 0) mean (zeros_like mean)) (\<lambda>mean'.
         thn (twhere (input_batch_size > 0) variance (zeros_like variance)) (\<lambda>variance'.
           Inr (mean', variance'))))
       else Inr (mean, variance))"

section \<open>The call of the layer\<close>

text \<open>
  The result of \<open>call\<close>: the outputs, the layer with its variables as they are once
  the updates have run, and for every update given to \<open>add_update\<close> the variable and
  the value the update leaves in it.
\<close>

datatype variable_name = MovingMean | MovingVariance

record call_result =
  outputs :: tensor
  layer_after :: layer
  updates :: "(variable_name \<times> tensor) list"

text \<open>
  The tensor engine's fused kernel and two facts about the execution context, which
  \<open>_fused_batch_norm\<close> asks for. The kernel
  \<open>fused_batch_norm(x, gamma, beta, mean, variance, epsilon, is_training, data_format,
  exponential_avg_factor)\<close> returns the output and two statistics.
\<close>

record engine =
  fused_batch_norm ::
    "tensor \<Rightarrow> tensor \<Rightarrow> tensor \<Rightarrow> tensor \<Rightarrow> tensor \<Rightarrow> real \<Rightarrow> bool \<Rightarrow> string option
     \<Rightarrow> real option \<Rightarrow> error + (tensor \<times> tensor \<times> tensor)"
  executing_eagerly_outside_functions :: bool
  enclosing_xla_context :: bool

definition call_axis :: "layer \<Rightarrow> error + int list" where
  "call_axis l = (case axis l of AxisInt _ \<Rightarrow> Inl TypeError | AxisList ax \<Rightarrow> Inr ax)"

definition virtual_batch_shapes :: "int \<Rightarrow> tensor \<Rightarrow> int list \<times> int list" where
  "virtual_batch_shapes v inputs =
     (let original_shape = -1 # map int (drop 1 (shape inputs));
          expanded_shape = [v, -1] @ drop 1 original_shape
      in (original_shape, expanded_shape))"

text \<open>The axes to reduce; \<open>del reduction_axes[1]\<close> under virtual batching.\<close>

definition reduction_axes_of :: "layer \<Rightarrow> int list \<Rightarrow> nat \<Rightarrow> error + nat list" where
  "reduction_axes_of l ax ndims =
     (let reduction_axes = filter (\<lambda>i. int i \<notin> set ax) [0..<ndims] in
      if virtual_batch_size l \<noteq> None then
        (if length reduction_axes < 2 then Inl IndexError
         else Inr (take 1 reduction_axes @ drop 2 reduction_axes))
      else Inr reduction_axes)"

definition call_broadcast_shape :: "int list \<Rightarrow> nat list \<Rightarrow> error + nat list" where
  "call_broadcast_shape ax input_shape =
     (case ax of
        [] \<Rightarrow> Inl IndexError
      | a0 # _ \<Rightarrow>
          let ndims = length input_shape;
              j = (if a0 < 0 then a0 + int ndims else a0)
          in if j < 0 \<or> j \<ge> int ndims then Inl IndexError
             else Inr ((replicate ndims 1)[nat j := input_shape ! nat j]))"

text \<open>The local function \<open>_broadcast\<close> on a tensor, and on a value that may be \<open>None\<close>.\<close>

definition broadcast_tensor :: "nat \<Rightarrow> nat list \<Rightarrow> nat list \<Rightarrow> tensor \<Rightarrow> error + tensor" where
  "broadcast_tensor ndims reduction_axes bshape v =
     (if length (shape v) \<noteq> ndims \<and> reduction_axes \<noteq> [0..<ndims - 1]
      then reshape v (map int bshape)
      else Inr v)"

definition broadcast_opt ::
  "nat \<Rightarrow> nat list \<Rightarrow> nat list \<Rightarrow> tensor option \<Rightarrow> error + tensor option" where
  "broadcast_opt ndims reduction_axes bshape v =
     (case v of
        None \<Rightarrow> Inr None
      | Some t \<Rightarrow> thn (broadcast_tensor ndims reduction_axes bshape t) (\<lambda>t'. Inr (Some t')))"

definition compose_transforms ::
  "tensor \<Rightarrow> tensor \<Rightarrow> tensor option \<Rightarrow> tensor option \<Rightarrow> error + (tensor \<times> tensor)" where
  "compose_transforms scl offset then_scale then_offset =
     thn (case then_scale of
            None \<Rightarrow> Inr (scl, offset)
          | Some ts \<Rightarrow> thn (tmul scl ts) (\<lambda>s'. thn (tmul offset ts) (\<lambda>o'. Inr (s', o'))))
       (\<lambda>(s1, o1).
          case then_offset of
            None \<Rightarrow> Inr (s1, o1)
          | Some t \<Rightarrow> thn (tadd o1 t) (\<lambda>o2. Inr (s1, o2)))"

definition frelu :: "fl \<Rightarrow> fl" where
  "frelu x = fmax x (Fin 0)"

text \<open>The local functions \<open>mean_update\<close> and \<open>variance_update\<close> of the generic path.\<close>

definition mean_update :: "layer \<Rightarrow> tensor \<Rightarrow> training \<Rightarrow> nat option \<Rightarrow> error + tensor" where
  "mean_update l new_mean tr input_batch_size =
     thn (the_var (moving_mean l)) (\<lambda>var.
       if run_value tr
       then assign_moving_average var new_mean (momentum l) input_batch_size
       else Inr var)"

definition variance_update ::
  "layer \<Rightarrow> tensor \<Rightarrow> training \<Rightarrow> nat option \<Rightarrow> error + (layer \<times> tensor)" where
  "variance_update l new_variance tr input_batch_size =
     thn (the_var (moving_variance l)) (\<lambda>var.
       if run_value tr then
         (if renorm l then
            thn (the_var (moving_stddev l)) (\<lambda>stddev_var.
            thn (tadd new_variance (tconstant (epsilon l))) (\<lambda>ve.
            thn (assign_moving_average stddev_var (tmap fsqrt ve) (momentum l)
                   input_batch_size) (\<lambda>stddev'.
            thn (tmul stddev' stddev') (\<lambda>sq.
            thn (tsub sq (tconstant (epsilon l))) (\<lambda>x.
            thn (assign_new_value var (tmap frelu x)) (\<lambda>var'.
              Inr (l\<lparr>moving_stddev := Some stddev', moving_variance := Some var'\<rparr>,
                   var')))))))
          else
            thn (assign_moving_average var new_variance (momentum l) input_batch_size)
              (\<lambda>var'. Inr (l\<lparr>moving_variance := Some var'\<rparr>, var')))
       else Inr (l, var))"

text \<open>
  The branch of \<open>call\<close> taken unless \<open>training\<close> is known to be false: the
  statistics to normalize with, the composed scale and offset, the layer after the
  updates and the updates given to \<open>add_update\<close>.
\<close>

definition call_adjustment ::
  "layer \<Rightarrow> tensor \<Rightarrow> training \<Rightarrow> tensor option \<Rightarrow> tensor option
   \<Rightarrow> error + (tensor option \<times> tensor option)" where
  "call_adjustment l inputs tr scl offset =
     (case adjustment l of
        None \<Rightarrow> Inr (scl, offset)
      | Some adj \<Rightarrow>
          let (adj_scale, adj_bias) = adj (shape inputs);
              adj_scale' = (if run_value tr then adj_scale else ones_like adj_scale);
              adj_bias' = (if run_value tr then adj_bias else zeros_like adj_bias)
          in thn (compose_transforms adj_scale' adj_bias' scl offset)
               (\<lambda>(s, off). Inr (Some s, Some off)))"

definition call_new_moments ::
  "layer \<Rightarrow> tensor \<Rightarrow> tensor \<Rightarrow> error + (tensor \<times> tensor)" where
  "call_new_moments l mean variance =
     (if virtual_batch_size l \<noteq> None then
        thn (reduce_mean mean [1] True) (\<lambda>new_mean.
        thn (reduce_mean variance [1] True) (\<lambda>new_variance.
          Inr (new_mean, new_variance)))
      else Inr (mean, variance))"

definition call_input_batch_size :: "layer \<Rightarrow> tensor \<Rightarrow> error + nat option" where
  "call_input_batch_size l inputs =
     (if support_zero_size_input l then thn (batch_size inputs) (\<lambda>n. Inr (Some n))
      else Inr None)"

definition call_renorm ::
  "layer \<Rightarrow> nat \<Rightarrow> nat list \<Rightarrow> nat list \<Rightarrow> tensor \<Rightarrow> tensor \<Rightarrow> training \<Rightarrow> nat option
   \<Rightarrow> tensor option \<Rightarrow> tensor option
   \<Rightarrow> error + (tensor option \<times> tensor option \<times> tensor \<times> tensor \<times> layer)" where
  "call_renorm l ndims reduction_axes bshape new_mean new_variance tr input_batch_size
     scl offset =
     (if renorm l then
        thn (renorm_correction_and_moments l new_mean new_variance tr input_batch_size)
          (\<lambda>((r, d, new_mean', new_variance'), l').
        thn (broadcast_tensor ndims reduction_axes bshape r) (\<lambda>r'.
        thn (broadcast_tensor ndims reduction_axes bshape d) (\<lambda>d'.
        thn (compose_transforms r' d' scl offset) (\<lambda>(s, off).
          Inr (Some s, Some off, new_mean', new_variance', l')))))
      else Inr (scl, offset, new_mean, new_variance, l))"

definition call_training_branch ::
  "layer \<Rightarrow> tensor \<Rightarrow> training \<Rightarrow> int list \<Rightarrow> nat \<Rightarrow> nat list \<Rightarrow> nat list
   \<Rightarrow> tensor option \<Rightarrow> tensor option
   \<Rightarrow> error + (tensor \<times> tensor \<times> tensor option \<times> tensor option \<times> layer
               \<times> (variable_name \<times> tensor) list)" where
  "call_training_branch l inputs tr ax ndims reduction_axes bshape scale0 offset0 =
     thn (call_adjustment l inputs tr scale0 offset0) (\<lambda>(scale1, offset1).
     let keep_dims = (virtual_batch_size l \<noteq> None \<or> length ax > 1) in
     thn (moments l inputs reduction_axes keep_dims) (\<lambda>(batch_mean, batch_variance).
     thn (the_var (moving_mean l)) (\<lambda>moving_mean_var.
     thn (the_var (moving_variance l)) (\<lambda>moving_variance_var.
     let mean = (if run_value tr then batch_mean else moving_mean_var);
         variance = (if run_value tr then batch_variance else moving_variance_var) in
     thn (call_new_moments l mean variance) (\<lambda>(new_mean, new_variance).
     thn (call_input_batch_size l inputs) (\<lambda>input_batch_size.
     thn (call_renorm l ndims reduction_axes bshape new_mean new_variance tr
            input_batch_size scale1 offset1)
       (\<lambda>(scale2, offset2, new_mean', new_variance', l1).
     thn (mean_update l1 new_mean' tr input_batch_size) (\<lambda>mm.
     thn (variance_update (l1\<lparr>moving_mean := Some mm\<rparr>) new_variance' tr input_batch_size)
       (\<lambda>(l2, mv).
       Inr (mean, variance, scale2, offset2, l2,
            [(MovingMean, mm), (MovingVariance, mv)]))))))))))"

text \<open>The generic path of \<open>call\<close>, from the computation of the reduction axes on.\<close>

definition call_statistics ::
  "layer \<Rightarrow> tensor \<Rightarrow> training \<Rightarrow> int list \<Rightarrow> nat \<Rightarrow> nat list \<Rightarrow> nat list
   \<Rightarrow> tensor option \<Rightarrow> tensor option
   \<Rightarrow> error + (tensor \<times> tensor \<times> tensor option \<times> tensor option \<times> layer
               \<times> (variable_name \<times> tensor) list)" where
  "call_statistics l inputs tr ax ndims reduction_axes bshape scale0 offset0 =
     (if constant_value tr = Some False then
        thn (the_var (moving_mean l)) (\<lambda>mean.
        thn (the_var (moving_variance l)) (\<lambda>variance.
          Inr (mean, variance, scale0, offset0, l, [])))
      else call_training_branch l inputs tr ax ndims reduction_axes bshape scale0 offset0)"

definition call_generic :: "layer \<Rightarrow> tensor \<Rightarrow> training \<Rightarrow> error + call_result" where
  "call_generic l inputs tr =
     (let input_shape = shape inputs; ndims = length input_shape in
      thn (call_axis l) (\<lambda>ax.
      thn (reduction_axes_of l ax ndims) (\<lambda>reduction_axes.
      thn (call_broadcast_shape ax input_shape) (\<lambda>bshape.
      thn (broadcast_opt ndims reduction_axes bshape (gamma l)) (\<lambda>scale0.
      thn (broadcast_opt ndims reduction_axes bshape (beta l)) (\<lambda>offset0.
      thn (call_statistics l inputs tr ax ndims reduction_axes bshape scale0 offset0)
        (\<lambda>(mean, variance, scl, offset, l', ups).
      thn (broadcast_tensor ndims reduction_axes bshape mean) (\<lambda>mean'.
      thn (broadcast_tensor ndims reduction_axes bshape variance) (\<lambda>variance'.
      thn (batch_normalization inputs mean' variance' offset scl (epsilon l)) (\<lambda>out.
        if shape out \<noteq> input_shape then Inl InvalidArgument
        else Inr \<lparr>outputs = out, layer_after = l', updates = ups\<rparr>))))))))))"

text \<open>\<open>_fused_batch_norm\<close>, with the kernel of the engine.\<close>

definition bessels_correction :: "layer \<Rightarrow> tensor \<Rightarrow> tensor \<Rightarrow> bool \<Rightarrow> error + tensor" where
  "bessels_correction l inputs variance remove =
     (if bessels_correction_test_only l then Inr variance
      else let sample_size = fdiv (Fin (real (prod_list (shape inputs))))
                                  (Fin (real (prod_list (shape variance))));
               factor = (if remove then fdiv (fsub sample_size (Fin 1)) sample_size
                         else fdiv sample_size (fsub sample_size (Fin 1)))
           in tmul variance \<lparr>shape = [], vals = [factor]\<rparr>)"

definition fused_statistic_update ::
  "bool \<Rightarrow> tensor \<Rightarrow> tensor \<Rightarrow> real \<Rightarrow> nat option \<Rightarrow> error + tensor" where
  "fused_statistic_update use_fused_avg_updates var v mom input_batch_size =
     (if use_fused_avg_updates then assign_new_value var v
      else assign_moving_average var v mom input_batch_size)"

definition fused_batch_norm_call ::
  "engine \<Rightarrow> layer \<Rightarrow> tensor \<Rightarrow> training \<Rightarrow> error + call_result" where
  "fused_batch_norm_call eng l inputs tr =
     thn (the_var (if center l then beta l else beta_const l)) (\<lambda>beta_t.
     thn (the_var (if scale l then gamma l else gamma_const l)) (\<lambda>gamma_t.
     thn (call_input_batch_size l inputs) (\<lambda>input_batch_size.
     thn (the_var (moving_mean l)) (\<lambda>mm.
     thn (the_var (moving_variance l)) (\<lambda>mv.
     let use_fused_avg_updates =
           (executing_eagerly_outside_functions eng \<and> \<not> enclosing_xla_context eng);
         exponential_avg_factor =
           (if use_fused_avg_updates then Some (1 - momentum l) else None);
         fused_batch_norm_training =
           thn (bessels_correction l inputs mv False) (\<lambda>v.
             fused_batch_norm eng inputs gamma_t beta_t mm v (epsilon l) True
               (data_format l) exponential_avg_factor);
         fused_batch_norm_training_empty = Inr (inputs, mm, mv);
         fused_batch_norm_inference =
           fused_batch_norm eng inputs gamma_t beta_t mm mv (epsilon l) False
             (data_format l) None;
         train_op =
           (case input_batch_size of
              Some n \<Rightarrow>
                if use_fused_avg_updates
                then (if n > 0 then fused_batch_norm_training
                      else fused_batch_norm_training_empty)
                else fused_batch_norm_training
            | None \<Rightarrow> fused_batch_norm_training)
     in thn (if run_value tr then train_op else fused_batch_norm_inference)
          (\<lambda>(output, mean, variance0).
        thn (bessels_correction l inputs variance0 True) (\<lambda>variance.
          if constant_value tr \<noteq> Some False then
            (let mom = (if constant_value tr = None \<and> \<not> run_value tr then 1
                        else momentum l) in
             thn (fused_statistic_update use_fused_avg_updates mm mean mom input_batch_size) (\<lambda>mm'.
             thn (fused_statistic_update use_fused_avg_updates mv variance mom input_batch_size) (\<lambda>mv'.
               Inr \<lparr>outputs = output,
                    layer_after = l\<lparr>moving_mean := Some mm', moving_variance := Some mv'\<rparr>,
                    updates = [(MovingMean, mm'), (MovingVariance, mv')]\<rparr>)))
          else Inr \<lparr>outputs = output, layer_after = l, updates = []\<rparr>)))))))"

text \<open>\<open>call(inputs, training)\<close>.\<close>

definition call ::
  "engine \<Rightarrow> layer \<Rightarrow> tensor \<Rightarrow> training option \<Rightarrow> error + call_result" where
  "call eng l inputs0 training_arg =
     (let tr = get_training_value l training_arg in
      thn (case virtual_batch_size l of
             None \<Rightarrow> Inr (inputs0, None)
           | Some v \<Rightarrow>
               let (original_shape, expanded_shape) = virtual_batch_shapes v inputs0
               in thn (reshape inputs0 expanded_shape) (\<lambda>x. Inr (x, Some original_shape)))
        (\<lambda>(inputs, undo).
      thn (if fused l = Some True then fused_batch_norm_call eng l inputs tr
           else call_generic l inputs tr) (\<lambda>res.
        case undo of
          None \<Rightarrow> Inr res
        | Some original_shape \<Rightarrow>
            thn (reshape (outputs res) original_shape) (\<lambda>out. Inr (res\<lparr>outputs := out\<rparr>)))))"

text \<open>
  Layers with the default arguments, under a distribution strategy with and without
  support for inputs of size zero.
\<close>

definition zero_size_layer :: layer where
  "zero_size_layer = init_attributes True None True (PyBool False) default_args"

definition plain_layer :: layer where
  "plain_layer = init_attributes True None False (PyBool False) default_args"

text \<open>
  A built layer that is not trainable, normalizing axis 1 of inputs of rank 2 on the
  generic path, and an engine without a fused kernel.
\<close>

definition frozen_layer :: layer where
  "frozen_layer =
     (init_attributes True None False (PyBool True) default_args)
       \<lparr>axis := AxisList [1], epsilon := 1, trainable := False, fused := Some False,
        gamma := Some \<lparr>shape = [2], vals = [Fin 2, Fin 2]\<rparr>,
        beta := Some \<lparr>shape = [2], vals = [Fin 1, Fin 1]\<rparr>,
        moving_mean := Some \<lparr>shape = [2], vals = [Fin 1, Fin 2]\<rparr>,
        moving_variance := Some \<lparr>shape = [2], vals = [Fin 3, Fin 3]\<rparr>,
        built := True\<rparr>"

definition no_kernel_engine :: engine where
  "no_kernel_engine =
     \<lparr>fused_batch_norm = (\<lambda>x g b m v e t f a. Inl InvalidArgument),
      executing_eagerly_outside_functions = True,
      enclosing_xla_context = False\<rparr>"

section \<open>The adapt-based normalization of the preprocessing layer\<close>

text \<open>
  Modelled from the spec: the preprocessing layer \<open>Normalization\<close> (its \<open>adapt\<close>,
  \<open>merge_state\<close> and \<open>call\<close>) is not among the sources, only its tests are. A
  running-statistics tracker holds the count, the mean and the population variance of
  the data it has seen; merging two trackers is the count-weighted combination of their
  means, and of their variances taken about the merged mean.
\<close>

record tracker =
  t_count :: nat
  t_mean :: real
  t_variance :: real

definition adapt :: "real list \<Rightarrow> tracker" where
  "adapt xs =
     (let n = length xs; m = sum_list xs / real n
      in \<lparr>t_count = n, t_mean = m,
          t_variance = sum_list (map (\<lambda>x. (x - m)\<^sup>2) xs) / real n\<rparr>)"

definition merge_two :: "tracker \<Rightarrow> tracker \<Rightarrow> tracker" where
  "merge_two a b =
     (let n = t_count a + t_count b;
          m = (real (t_count a) * t_mean a + real (t_count b) * t_mean b) / real n
      in \<lparr>t_count = n, t_mean = m,
          t_variance =
            (real (t_count a) * (t_variance a + (t_mean a - m)\<^sup>2)
             + real (t_count b) * (t_variance b + (t_mean b - m)\<^sup>2)) / real n\<rparr>)"

definition merge_state :: "tracker \<Rightarrow> tracker list \<Rightarrow> tracker" where
  "merge_state a bs = foldl merge_two a bs"

text \<open>
  Modelled from the spec: the axis specification is normalized to non-negative indices
  and validated for range and duplicates; the normalized axes are excluded from the
  reduction axes of the statistics; the transform is
  \<open>(input - mean) / sqrt(variance + epsilon)\<close> with the statistics broadcast.
  \<open>adapt_and_normalize\<close> adapts on a tensor and normalizes the same tensor, as the
  test of the axis permutations does.
\<close>

definition spec_resolve_axes :: "nat \<Rightarrow> int list \<Rightarrow> int list" where
  "spec_resolve_axes ndims axes = map (\<lambda>a. if a < 0 then a + int ndims else a) axes"

definition spec_reduction_axes :: "nat \<Rightarrow> int list \<Rightarrow> nat list" where
  "spec_reduction_axes ndims axes =
     filter (\<lambda>i. int i \<notin> set (spec_resolve_axes ndims axes)) [0..<ndims]"

definition spec_normalize :: "tensor \<Rightarrow> tensor \<Rightarrow> tensor \<Rightarrow> real \<Rightarrow> error + tensor" where
  "spec_normalize x mean_t variance_t eps =
     thn (tsub x mean_t) (\<lambda>centered.
     thn (tadd variance_t (tconstant eps)) (\<lambda>ve.
       tdiv centered (tmap fsqrt ve)))"

definition adapt_and_normalize :: "int list \<Rightarrow> real \<Rightarrow> tensor \<Rightarrow> error + tensor" where
  "adapt_and_normalize axes eps x =
     (let ndims = length (shape x); resolved = spec_resolve_axes ndims axes in
      if list_ex (\<lambda>a. a < 0 \<or> a \<ge> int ndims) resolved then Inl (ValueError InvalidAxis)
      else if \<not> distinct resolved then Inl (ValueError DuplicateAxis)
      else thn (nn_moments x (spec_reduction_axes ndims axes) True) (\<lambda>(mean_t, variance_t).
             spec_normalize x mean_t variance_t eps))"

section \<open>Broadcasting a tensor to a shape\<close>


definition broadcasts_into :: "nat list \<Rightarrow> nat list \<Rightarrow> bool" where
  "broadcasts_into p s =
     (length p \<le> length s
      \<and> list_all2 (\<lambda>d q. q = d \<or> q = 1) (drop (length s - length p) s) p)"

section \<open>A layer with virtual batches\<close>

text \<open>
  The arguments of a layer with a virtual batch size of 2 and \<open>epsilon = 3\<close>, the
  layer that \<open>build\<close> makes of it for inputs of shape \<open>[4, 1]\<close>, and the outputs of
  a call.
\<close>

definition virtual_batch_args :: bn_args where
  "virtual_batch_args = default_args\<lparr>arg_epsilon := 3, arg_virtual_batch_size := Some 2\<rparr>"

definition virtual_batch_layer :: layer where
  "virtual_batch_layer =
     (init_attributes True None False (PyBool False) virtual_batch_args)
       \<lparr>axis := AxisList [2], fused := Some False,
        gamma := Some (tfill [1, 1, 1] 1), beta := Some (tfill [1, 1, 1] 0),
        moving_mean := Some (tfill [1, 1, 1] 0), moving_variance := Some (tfill [1, 1, 1] 1),
        built := True\<rparr>"

definition call_outputs :: "error + call_result \<Rightarrow> error + tensor" where
  "call_outputs r = (case r of Inl e \<Rightarrow> Inl e | Inr res \<Rightarrow> Inr (outputs res))"

section \<open>Row-major indexing\<close>


lemma length_indices: "length (indices s) = prod_list s"
  by (induction s) (simp_all add: length_concat comp_def sum_list_triv)

lemma indices_length: "idx \<in> set (indices s) \<Longrightarrow> length idx = length s"
  by (induction s arbitrary: idx) auto

lemma indices_lt: "idx \<in> set (indices s) \<Longrightarrow> k < length s \<Longrightarrow> idx ! k < s ! k"
proof (induction s arbitrary: idx k)
  case Nil then show ?case by simp
next
  case (Cons n ns)
  then obtain i js where ij: "idx = i # js" "i < n" "js \<in> set (indices ns)" by auto
  show ?case
  proof (cases k)
    case 0 then show ?thesis using ij by simp
  next
    case (Suc k')
    then have "js ! k' < ns ! k'" using Cons.IH[OF ij(3)] Cons.prems(2) by simp
    then show ?thesis using ij Suc by simp
  qed
qed

lemma flat_index_lt: "idx \<in> set (indices s) \<Longrightarrow> flat_index s idx < prod_list s"
proof (induction s arbitrary: idx)
  case Nil then show ?case by simp
next
  case (Cons n ns)
  then obtain i js where ij: "idx = i # js" "i < n" "js \<in> set (indices ns)" by auto
  then have "flat_index ns js < prod_list ns" using Cons.IH by simp
  moreover have "i * prod_list ns + prod_list ns \<le> n * prod_list ns"
    using ij(2) by (metis Suc_leI mult_Suc mult_le_mono1 add.commute)
  ultimately show ?case using ij by simp
qed

lemma concat_upt_blocks: "concat (map (\<lambda>i. map (\<lambda>k. i * m + k) [0..<m]) [0..<n]) = [0..<n * m]"
proof (induction n)
  case 0 then show ?case by simp
next
  case (Suc n)
  have "map (\<lambda>k. n * m + k) [0..<m] = [n * m..<n * m + m]"
    using map_add_upt[of "n * m" m] by (simp add: add.commute)
  moreover have "[0..<n * m + m] = [0..<n * m] @ [n * m..<n * m + m]"
    by (rule upt_add_eq_append) simp
  moreover have "Suc n * m = n * m + m" by simp
  ultimately show ?case using Suc by (simp del: mult_Suc)
qed

lemma map_flat_index: "map (flat_index s) (indices s) = [0..<prod_list s]"
proof (induction s)
  case Nil then show ?case by simp
next
  case (Cons n ns)
  have "map (flat_index (n # ns)) (indices (n # ns))
      = concat (map (\<lambda>i. map (\<lambda>js. i * prod_list ns + flat_index ns js) (indices ns)) [0..<n])"
    by (simp add: map_concat comp_def)
  also have "\<dots> = concat (map (\<lambda>i. map (\<lambda>k. i * prod_list ns + k) (map (flat_index ns) (indices ns))) [0..<n])"
    by (simp add: comp_def)
  also have "\<dots> = [0..<n * prod_list ns]"
    unfolding Cons by (rule concat_upt_blocks)
  finally show ?case by simp
qed

lemma map_nth_flat: "length xs = prod_list s \<Longrightarrow> map (\<lambda>idx. xs ! flat_index s idx) (indices s) = xs"
proof -
  assume l: "length xs = prod_list s"
  have "map (\<lambda>idx. xs ! flat_index s idx) (indices s) = map ((!) xs) (map (flat_index s) (indices s))"
    by (simp add: comp_def)
  also have "\<dots> = xs" unfolding map_flat_index using l by (metis map_nth)
  finally show ?thesis .
qed

section \<open>Broadcasting of equal shapes and of scalars\<close>

lemma bdim_same: "bdim a a = Some a" by (simp add: bdim_def)

lemma bshape_rev_same: "bshape_rev s s = Some s"
  by (induction s) (simp_all add: bdim_same)

lemma broadcast_shape_same: "broadcast_shape s s = Some s"
  by (simp add: broadcast_shape_def bshape_rev_same)

lemma bshape_rev_Nil2: "bshape_rev s [] = Some s"
  by (cases s) simp_all

lemma broadcast_shape_scalar: "broadcast_shape s [] = Some s"
  by (simp add: broadcast_shape_def bshape_rev_Nil2)

lemma bidx_same: "idx \<in> set (indices s) \<Longrightarrow> bidx s idx = idx"
proof -
  assume a: "idx \<in> set (indices s)"
  then have l: "length idx = length s" by (rule indices_length)
  have "map2 (\<lambda>d i. if d = 1 then 0 else i) s idx = idx"
  proof (rule nth_equalityI)
    show "length (map2 (\<lambda>d i. if d = 1 then 0 else i) s idx) = length idx" using l by simp
  next
    fix k assume "k < length (map2 (\<lambda>d i. if d = 1 then 0 else i) s idx)"
    then have k: "k < length s" by simp
    then have "idx ! k < s ! k" using indices_lt[OF a] by simp
    then show "map2 (\<lambda>d i. if d = 1 then 0 else i) s idx ! k = idx ! k" using k l by auto
  qed
  then show ?thesis using l by (simp add: bidx_def)
qed

lemma bidx_scalar: "bidx [] idx = []"
  by (simp add: bidx_def)

lemma map2_nth: "length xs = length ys \<Longrightarrow> map (\<lambda>k. f (xs ! k) (ys ! k)) [0..<length xs] = map2 f xs ys"
  by (rule nth_equalityI) simp_all

lemma tbinop_same_shape:
  assumes "wf a" "wf b" "shape b = shape a"
  shows "tbinop f a b = Inr \<lparr>shape = shape a, vals = map2 f (vals a) (vals b)\<rparr>"
proof -
  let ?s = "shape a"
  have la: "length (vals a) = prod_list ?s" and lb: "length (vals b) = prod_list ?s"
    using assms by (simp_all add: wf_def)
  have "map (\<lambda>idx. f (tget a (bidx ?s idx)) (tget b (bidx ?s idx))) (indices ?s)
      = map (\<lambda>idx. f (vals a ! flat_index ?s idx) (vals b ! flat_index ?s idx)) (indices ?s)"
    by (rule map_cong) (simp_all add: bidx_same tget_def assms(3))
  also have "\<dots> = map (\<lambda>k. f (vals a ! k) (vals b ! k)) (map (flat_index ?s) (indices ?s))"
    by (simp add: comp_def)
  also have "\<dots> = map2 f (vals a) (vals b)"
    unfolding map_flat_index using map2_nth[of "vals a" "vals b" f] la lb by simp
  finally show ?thesis
    by (simp add: tbinop_def assms(3) broadcast_shape_same)
qed

lemma tbinop_scalar:
  assumes "wf a"
  shows "tbinop f a \<lparr>shape = [], vals = [c]\<rparr> = Inr \<lparr>shape = shape a, vals = map (\<lambda>x. f x c) (vals a)\<rparr>"
proof -
  let ?s = "shape a"
  have la: "length (vals a) = prod_list ?s" using assms by (simp add: wf_def)
  have "map (\<lambda>idx. f (tget a (bidx ?s idx)) (tget \<lparr>shape = [], vals = [c]\<rparr> (bidx [] idx))) (indices ?s)
      = map (\<lambda>idx. f (vals a ! flat_index ?s idx) c) (indices ?s)"
    by (rule map_cong) (simp_all add: bidx_same bidx_scalar tget_def)
  also have "\<dots> = map (\<lambda>x. f x c) (map (\<lambda>idx. vals a ! flat_index ?s idx) (indices ?s))"
    by (simp add: comp_def)
  also have "\<dots> = map (\<lambda>x. f x c) (vals a)"
    using map_nth_flat[OF la] by simp
  finally show ?thesis
    by (simp add: tbinop_def broadcast_shape_scalar)
qed

lemma fsub_zero: "fsub x (Fin 0) = x"
  by (cases x) (simp_all add: fsub_def)

lemma calculate_update_delta_same:
  assumes "wf variable" "wf v" "shape v = shape variable"
  shows "calculate_update_delta variable v m sz =
    Inr \<lparr>shape = shape variable,
         vals = map2 (\<lambda>old x. if sz = Some 0 then Fin 0 else fmul (fsub old x) (Fin (1 - m))) (vals variable) (vals v)\<rparr>"
proof -
  have lv: "length (vals v) = length (vals variable)" using assms by (simp add: wf_def)
  have d: "tsub variable v = Inr \<lparr>shape = shape variable, vals = map2 fsub (vals variable) (vals v)\<rparr>"
    unfolding tsub_def using assms by (rule tbinop_same_shape)
  let ?d = "\<lparr>shape = shape variable, vals = map2 fsub (vals variable) (vals v)\<rparr>"
  have wd: "wf ?d" using assms by (simp add: wf_def)
  have u: "tmul ?d (tconstant (1 - m)) = Inr \<lparr>shape = shape variable, vals = map (\<lambda>x. fmul x (Fin (1 - m))) (map2 fsub (vals variable) (vals v))\<rparr>"
    unfolding tmul_def tconstant_def using tbinop_scalar[OF wd] by simp
  have e: "map (\<lambda>x. fmul x (Fin (1 - m))) (map2 fsub (vals variable) (vals v)) = map2 (\<lambda>old x. fmul (fsub old x) (Fin (1 - m))) (vals variable) (vals v)"
    by (simp add: map_zip_map2 comp_def case_prod_unfold)
  show ?thesis
  proof (cases sz)
    case None
    then show ?thesis by (auto simp add: calculate_update_delta_def thn_def d u)
  next
    case (Some n)
    then show ?thesis
      by (auto simp add: calculate_update_delta_def thn_def d u twhere_def zeros_like_def lv
            intro!: nth_equalityI)
  qed
qed

section \<open>The moving-average update: properties\<close>

lemma assign_moving_average_same:
  assumes "wf variable" "wf v" "shape v = shape variable"
  shows "assign_moving_average variable v m sz =
    Inr \<lparr>shape = shape variable,
         vals = map2 (\<lambda>old x. fsub old (if sz = Some 0 then Fin 0 else fmul (fsub old x) (Fin (1 - m))))
                  (vals variable) (vals v)\<rparr>"
proof -
  let ?g = "\<lambda>old x. if sz = Some 0 then Fin 0 else fmul (fsub old x) (Fin (1 - m))"
  let ?d = "\<lparr>shape = shape variable, vals = map2 ?g (vals variable) (vals v)\<rparr>"
  have lv: "length (vals v) = length (vals variable)" using assms by (simp add: wf_def)
  have wd: "wf ?d" using assms by (simp add: wf_def)
  have "tsub variable ?d = Inr \<lparr>shape = shape variable, vals = map2 fsub (vals variable) (vals ?d)\<rparr>"
    unfolding tsub_def using assms(1) wd by (rule tbinop_same_shape) simp
  moreover have "map2 fsub (vals variable) (vals ?d) = map2 (\<lambda>old x. fsub old (?g old x)) (vals variable) (vals v)"
    using lv by (auto intro!: nth_equalityI)
  ultimately show ?thesis
    using calculate_update_delta_same[OF assms, of m sz]
    by (simp add: assign_moving_average_def thn_def assign_sub_def)
qed



text \<open>
  Claim C6. With a known batch size of zero the update delta is all zeros, whatever the
  value (even \<open>NaN\<close>), and the variable keeps its value.
\<close>

theorem assign_moving_average_zero_batch:
  assumes "wf variable" and "wf v" and "shape v = shape variable"
  shows "calculate_update_delta variable v m (Some 0) = Inr (zeros_like variable)
       \<and> assign_moving_average variable v m (Some 0) = Inr variable"
proof -
  have lv: "length (vals v) = length (vals variable)" using assms by (simp add: wf_def)
  have "calculate_update_delta variable v m (Some 0) = Inr (zeros_like variable)"
    using calculate_update_delta_same[OF assms, of m "Some 0"] lv
    by (auto simp add: zeros_like_def intro!: nth_equalityI)
  moreover have "map2 (\<lambda>old x. fsub old (Fin 0)) (vals variable) (vals v) = vals variable"
    using lv by (auto simp add: fsub_zero intro!: nth_equalityI)
  then have "assign_moving_average variable v m (Some 0) = Inr variable"
    using assign_moving_average_same[OF assms, of m "Some 0"] by simp
  ultimately show ?thesis by simp
qed

theorem assign_moving_average_zero_batch_witness:
  "calculate_update_delta \<lparr>shape = [2], vals = [Fin 10, Fin 0]\<rparr> \<lparr>shape = [2], vals = [NaN, NaN]\<rparr> (3/4) (Some 0)
     = Inr \<lparr>shape = [2], vals = [Fin 0, Fin 0]\<rparr>
   \<and> assign_moving_average \<lparr>shape = [2], vals = [Fin 10, Fin 0]\<rparr> \<lparr>shape = [2], vals = [NaN, NaN]\<rparr> (3/4) (Some 0)
     = Inr \<lparr>shape = [2], vals = [Fin 10, Fin 0]\<rparr>"
  using assign_moving_average_zero_batch[of "\<lparr>shape = [2], vals = [Fin 10, Fin 0]\<rparr>" "\<lparr>shape = [2], vals = [NaN, NaN]\<rparr>" "3/4"]
  by (simp add: wf_def zeros_like_def)

section \<open>The choice of the fused path\<close>

















section \<open>The renormalization correction\<close>

lemma tbinop_vals_same:
  assumes "length xs = prod_list s" "length ys = prod_list s"
  shows "tbinop f \<lparr>shape = s, vals = xs\<rparr> \<lparr>shape = s, vals = ys\<rparr> = Inr \<lparr>shape = s, vals = map2 f xs ys\<rparr>"
  using tbinop_same_shape[of "\<lparr>shape = s, vals = xs\<rparr>" "\<lparr>shape = s, vals = ys\<rparr>" f] assms
  by (simp add: wf_def)

lemma tbinop_vals_scalar:
  assumes "length xs = prod_list s"
  shows "tbinop f \<lparr>shape = s, vals = xs\<rparr> \<lparr>shape = [], vals = [c]\<rparr> = Inr \<lparr>shape = s, vals = map (\<lambda>x. f x c) xs\<rparr>"
  using tbinop_scalar[of "\<lparr>shape = s, vals = xs\<rparr>" f c] assms
  by (simp add: wf_def)

lemma clip_r_vals:
  assumes "length xs = prod_list s"
  shows "clip_r c \<lparr>shape = s, vals = xs\<rparr> =
    Inr \<lparr>shape = s, vals = map (\<lambda>r. case map_of c ''rmax'' of
                                      None \<Rightarrow> (case map_of c ''rmin'' of None \<Rightarrow> r | Some rmin \<Rightarrow> fmax r (Fin rmin))
                                    | Some rmax \<Rightarrow> fmin (case map_of c ''rmin'' of None \<Rightarrow> r | Some rmin \<Rightarrow> fmax r (Fin rmin)) (Fin rmax)) xs\<rparr>"
  using assms
  by (simp add: clip_r_def thn_def tmaximum_def tminimum_def tconstant_def tbinop_vals_scalar
      split: option.splits)

lemma clip_d_vals:
  assumes "length xs = prod_list s"
  shows "clip_d c \<lparr>shape = s, vals = xs\<rparr> =
    Inr \<lparr>shape = s, vals = map (\<lambda>d. case map_of c ''dmax'' of
                                      None \<Rightarrow> d
                                    | Some dmax \<Rightarrow> fmin (fmax d (Fin (- dmax))) (Fin dmax)) xs\<rparr>"
  using assms
  by (simp add: clip_d_def thn_def tmaximum_def tminimum_def tconstant_def tbinop_vals_scalar
      split: option.splits)

lemma update_renorm_variable_ok:
  assumes "wf var" "wf v" "shape v = shape var" "renorm_momentum l = Some m"
  shows "\<exists>t. update_renorm_variable l var v tr sz = Inr t"
  using assms assign_moving_average_same[OF assms(1-3), of m sz]
  by (simp add: update_renorm_variable_def)

lemma thn_Inr: "thn (Inr x) f = f x"
  by (simp add: thn_def)

lemma renorm_correction_vals:
  assumes n: "length ms = prod_list s" "length vs = prod_list s"
      "length rms = prod_list s" "length rss = prod_list s"
    and l: "renorm_mean l = Some \<lparr>shape = s, vals = rms\<rparr>"
      "renorm_stddev l = Some \<lparr>shape = s, vals = rss\<rparr>"
      "renorm_clipping l = Some c" "renorm_momentum l = Some m"
  shows "\<exists>r d l'. renorm_correction_and_moments l \<lparr>shape = s, vals = ms\<rparr> \<lparr>shape = s, vals = vs\<rparr> tr sz
           = Inr ((r, d, \<lparr>shape = s, vals = ms\<rparr>, \<lparr>shape = s, vals = vs\<rparr>), l')
       \<and> shape r = s \<and> shape d = s
       \<and> vals r = map2 (spec_renorm_r (epsilon l) c (run_value tr)) vs rss
       \<and> vals d = map2 (\<lambda>mk (rmk, rsk). spec_renorm_d (epsilon l) c (run_value tr) mk rmk rsk)
                     ms (zip rms rss)"
proof -
  let ?mean = "\<lparr>shape = s, vals = ms\<rparr>" and ?var = "\<lparr>shape = s, vals = vs\<rparr>"
  let ?rm = "\<lparr>shape = s, vals = rms\<rparr>" and ?rs = "\<lparr>shape = s, vals = rss\<rparr>"
  let ?eps = "epsilon l"
  let ?ve = "\<lparr>shape = s, vals = map (\<lambda>x. fadd x (Fin ?eps)) vs\<rparr>"
  let ?sds = "map (\<lambda>x. fsqrt (fadd x (Fin ?eps))) vs"
  let ?stddev = "\<lparr>shape = s, vals = ?sds\<rparr>"
  let ?fls = "map (\<lambda>x. fmax x (fsqrt (Fin ?eps))) rss"
  let ?floor = "\<lparr>shape = s, vals = ?fls\<rparr>"
  let ?r0 = "\<lparr>shape = s, vals = map2 fdiv ?sds ?fls\<rparr>"
  let ?diff = "\<lparr>shape = s, vals = map2 fsub ms rms\<rparr>"
  let ?d0 = "\<lparr>shape = s, vals = map2 fdiv (map2 fsub ms rms) ?fls\<rparr>"
  let ?cr = "\<lambda>r. case map_of c ''rmax'' of
               None \<Rightarrow> (case map_of c ''rmin'' of None \<Rightarrow> r | Some rmin \<Rightarrow> fmax r (Fin rmin))
             | Some rmax \<Rightarrow> fmin (case map_of c ''rmin'' of None \<Rightarrow> r | Some rmin \<Rightarrow> fmax r (Fin rmin)) (Fin rmax)"
  let ?cd = "\<lambda>d. case map_of c ''dmax'' of None \<Rightarrow> d
             | Some dmax \<Rightarrow> fmin (fmax d (Fin (- dmax))) (Fin dmax)"
  let ?r1 = "\<lparr>shape = s, vals = map ?cr (map2 fdiv ?sds ?fls)\<rparr>"
  let ?d1 = "\<lparr>shape = s, vals = map ?cd (map2 fdiv (map2 fsub ms rms) ?fls)\<rparr>"
  have wfs: "wf ?mean" "wf ?rm" "wf ?rs" "wf ?stddev" using n by (simp_all add: wf_def)
  obtain um where um: "update_renorm_variable l ?rm ?mean tr sz = Inr um"
    using update_renorm_variable_ok[OF wfs(2) wfs(1) _ l(4), of tr sz] by auto
  obtain us where us: "update_renorm_variable l ?rs ?stddev tr sz = Inr us"
    using update_renorm_variable_ok[OF wfs(3) wfs(4) _ l(4), of tr sz] by auto
  have s1: "tadd ?var (tconstant ?eps) = Inr ?ve"
    using n by (simp add: tadd_def tconstant_def tbinop_vals_scalar)
  have s2: "tmap fsqrt ?ve = ?stddev" by (simp add: tmap_def)
  have s3: "tmaximum ?rs (tmap fsqrt (tconstant ?eps)) = Inr ?floor"
    using n unfolding tmaximum_def tconstant_def tmap_def
    using tbinop_vals_scalar[of rss s fmax "fsqrt (Fin ?eps)"] by simp
  have s4: "tdiv ?stddev ?floor = Inr ?r0"
    using n by (simp add: tdiv_def tbinop_vals_same)
  have s5: "tsub ?mean ?rm = Inr ?diff"
    using n by (simp add: tsub_def tbinop_vals_same)
  have s6: "tdiv ?diff ?floor = Inr ?d0"
    using n by (simp add: tdiv_def tbinop_vals_same)
  have s7: "clip_r c ?r0 = Inr ?r1" using n by (intro clip_r_vals) simp
  have s8: "clip_d c ?d0 = Inr ?d1" using n by (intro clip_d_vals) simp
  let ?r = "if run_value tr then ?r1 else ones_like ?r1"
  let ?d = "if run_value tr then ?d1 else zeros_like ?d1"
  have res: "renorm_correction_and_moments l ?mean ?var tr sz
      = Inr ((?r, ?d, ?mean, ?var), l\<lparr>renorm_mean := Some um, renorm_stddev := Some us\<rparr>)"
    unfolding renorm_correction_and_moments_def Let_def s1 thn_Inr s2 l the_var_def option.case
      s3 s4 s5 s6 s7 s8 um us
    by (rule refl)
  have shr: "shape ?r = s" "shape ?d = s" by (simp_all add: ones_like_def zeros_like_def)
  have vr: "vals ?r = map2 (spec_renorm_r ?eps c (run_value tr)) vs rss"
    using n
    by (intro nth_equalityI)
       (auto simp add: ones_like_def spec_renorm_r_def Let_def split: option.splits)
  have vd: "vals ?d = map2 (\<lambda>mk (rmk, rsk). spec_renorm_d ?eps c (run_value tr) mk rmk rsk)
                     ms (zip rms rss)"
    using n
    by (intro nth_equalityI)
       (auto simp add: zeros_like_def spec_renorm_d_def Let_def split: option.splits)
  show ?thesis
    using res shr vr vd by blast
qed

text \<open>
  Claim C2. For a batch mean and variance and stored \<open>renorm_mean\<close> and
  \<open>renorm_stddev\<close> of one shape, the corrector returns, element by element, the
  \<open>r\<close> and \<open>d\<close> of the specification: \<open>stddev = sqrt(variance + epsilon)\<close>,
  \<open>renorm_stddev\<close> floored at \<open>sqrt(epsilon)\<close>, the quotients, clipped by the bounds
  that are configured, and \<open>r = 1\<close>, \<open>d = 0\<close> when training is false. The mean and
  the variance are returned as they came.
\<close>

theorem renorm_correction:
  assumes "wf mean" and "wf variance" and "shape variance = shape mean"
    and "renorm_mean l = Some rm" and "wf rm" and "shape rm = shape mean"
    and "renorm_stddev l = Some rs" and "wf rs" and "shape rs = shape mean"
    and "renorm_clipping l = Some c" and "renorm_momentum l = Some m"
  shows "\<exists>r d l'. renorm_correction_and_moments l mean variance tr inputs_size
                   = Inr ((r, d, mean, variance), l')
       \<and> shape r = shape mean \<and> shape d = shape mean
       \<and> vals r = map2 (spec_renorm_r (epsilon l) c (run_value tr)) (vals variance) (vals rs)
       \<and> vals d = map2 (\<lambda>mk (rmk, rsk). spec_renorm_d (epsilon l) c (run_value tr) mk rmk rsk)
                     (vals mean) (zip (vals rm) (vals rs))"
proof -
  have m: "mean = \<lparr>shape = shape mean, vals = vals mean\<rparr>"
    and v: "variance = \<lparr>shape = shape mean, vals = vals variance\<rparr>"
    and rm: "rm = \<lparr>shape = shape mean, vals = vals rm\<rparr>"
    and rs: "rs = \<lparr>shape = shape mean, vals = vals rs\<rparr>"
    using assms(3,6,9) by simp_all
  have n: "length (vals mean) = prod_list (shape mean)"
      "length (vals variance) = prod_list (shape mean)"
      "length (vals rm) = prod_list (shape mean)" "length (vals rs) = prod_list (shape mean)"
    using assms(1,2,3,5,6,8,9) by (simp_all add: wf_def)
  have l: "renorm_mean l = Some \<lparr>shape = shape mean, vals = vals rm\<rparr>"
      "renorm_stddev l = Some \<lparr>shape = shape mean, vals = vals rs\<rparr>"
    using assms(4,7) rm rs by simp_all
  show ?thesis
    using renorm_correction_vals[OF n l assms(10,11), of tr inputs_size] m v by simp
qed

theorem renorm_correction_witness:
  "(\<exists>r d l'. renorm_correction_and_moments renorm_example_layer
                \<lparr>shape = [2], vals = [Fin 5, Fin 1]\<rparr> \<lparr>shape = [2], vals = [Fin 3, Fin 0]\<rparr>
                (PyBool True) None
              = Inr ((r, d, \<lparr>shape = [2], vals = [Fin 5, Fin 1]\<rparr>,
                      \<lparr>shape = [2], vals = [Fin 3, Fin 0]\<rparr>), l')
        \<and> vals r = [Fin (3 / 2), Fin (1 / 2)] \<and> vals d = [Fin 3, Fin 0])
   \<and> (\<exists>r d l'. renorm_correction_and_moments renorm_example_layer
                \<lparr>shape = [2], vals = [Fin 5, Fin 1]\<rparr> \<lparr>shape = [2], vals = [Fin 3, Fin 0]\<rparr>
                (PyBool False) None
              = Inr ((r, d, \<lparr>shape = [2], vals = [Fin 5, Fin 1]\<rparr>,
                      \<lparr>shape = [2], vals = [Fin 3, Fin 0]\<rparr>), l')
        \<and> vals r = [Fin 1, Fin 1] \<and> vals d = [Fin 0, Fin 0])"
proof -
  have four: "sqrt 4 = 2" by (rule real_sqrt_four)
  have a: "fsqrt (fadd (Fin 3) (Fin 1)) = Fin 2" "fsqrt (fadd (Fin 0) (Fin 1)) = Fin 1"
      "fsqrt (Fin 1) = Fin 1"
    by (simp_all add: fadd_def four)
  have f: "renorm_mean renorm_example_layer = Some \<lparr>shape = [2], vals = [Fin 1, Fin 1]\<rparr>"
      "renorm_stddev renorm_example_layer = Some \<lparr>shape = [2], vals = [Fin (1 / 2), Fin 4]\<rparr>"
      "renorm_clipping renorm_example_layer = Some [(''rmin'', 1 / 2), (''rmax'', 3 / 2), (''dmax'', 3)]"
      "renorm_momentum renorm_example_layer = Some (99 / 100)"
      "epsilon renorm_example_layer = 1"
    by (simp_all add: renorm_example_layer_def)
  show ?thesis
    using renorm_correction[of "\<lparr>shape = [2], vals = [Fin 5, Fin 1]\<rparr>"
            "\<lparr>shape = [2], vals = [Fin 3, Fin 0]\<rparr>" renorm_example_layer
            "\<lparr>shape = [2], vals = [Fin 1, Fin 1]\<rparr>"
            "\<lparr>shape = [2], vals = [Fin (1 / 2), Fin 4]\<rparr>"
            "[(''rmin'', 1 / 2), (''rmax'', 3 / 2), (''dmax'', 3)]" "99 / 100"
            "PyBool True" None]
          renorm_correction[of "\<lparr>shape = [2], vals = [Fin 5, Fin 1]\<rparr>"
            "\<lparr>shape = [2], vals = [Fin 3, Fin 0]\<rparr>" renorm_example_layer
            "\<lparr>shape = [2], vals = [Fin 1, Fin 1]\<rparr>"
            "\<lparr>shape = [2], vals = [Fin (1 / 2), Fin 4]\<rparr>"
            "[(''rmin'', 1 / 2), (''rmax'', 3 / 2), (''dmax'', 3)]" "99 / 100"
            "PyBool False" None]
    by (auto simp add: wf_def f run_value_def
        spec_renorm_r_def spec_renorm_d_def a fmax_def fmin_def fsub_def)
qed

section \<open>The moment calculator\<close>

lemma bshape_rev_mask:
  "list_all2 (\<lambda>x y. y = x \<or> y = 1) s r \<Longrightarrow> bshape_rev s r = Some s"
  by (induction rule: list_all2_induct) (auto simp add: bdim_def)

lemma broadcast_shape_mask:
  assumes "list_all2 (\<lambda>x y. y = x \<or> y = 1) s r"
  shows "broadcast_shape s r = Some s"
proof -
  have "list_all2 (\<lambda>x y. y = x \<or> y = 1) (rev s) (rev r)" using assms by simp
  then show ?thesis by (simp add: broadcast_shape_def bshape_rev_mask)
qed

lemma reduced_shape_mask: "list_all2 (\<lambda>x y. y = x \<or> y = 1) s (reduced_shape s axes)"
  by (simp add: list_all2_conv_all_nth reduced_shape_def)

lemma broadcast_shape_reduced: "broadcast_shape s (reduced_shape s axes) = Some s"
  by (rule broadcast_shape_mask[OF reduced_shape_mask])





text \<open>
  The same input, evaluated: with the support the statistics are zeros of the parameter
  shape, and without it they are \<open>NaN\<close>.
\<close>

lemma nn_moments_empty_batch:
  "nn_moments \<lparr>shape = [0, 2], vals = []\<rparr> [0] False
     = Inr (\<lparr>shape = [2], vals = [NaN, NaN]\<rparr>, \<lparr>shape = [2], vals = [NaN, NaN]\<rparr>)"
  by code_simp

lemma moments_empty_batch_example:
  "moments zero_size_layer \<lparr>shape = [0, 2], vals = []\<rparr> [0] False
     = Inr (\<lparr>shape = [2], vals = [Fin 0, Fin 0]\<rparr>, \<lparr>shape = [2], vals = [Fin 0, Fin 0]\<rparr>)"
  "moments plain_layer \<lparr>shape = [0, 2], vals = []\<rparr> [0] False
     = Inr (\<lparr>shape = [2], vals = [NaN, NaN]\<rparr>, \<lparr>shape = [2], vals = [NaN, NaN]\<rparr>)"
  by (simp_all add: moments_def calculate_mean_and_var_def nn_moments_empty_batch thn_def
      zero_size_layer_def plain_layer_def init_attributes_def batch_size_def twhere_def
      zeros_like_def)

section \<open>A layer that is not trainable\<close>

lemma get_training_value_frozen:
  "use_v2_behavior l \<Longrightarrow> \<not> trainable l \<Longrightarrow> get_training_value l tr = PyBool False"
  by (simp add: get_training_value_def Let_def)

lemma thn_eq_Inr: "thn m f = Inr y \<longleftrightarrow> (\<exists>x. m = Inr x \<and> f x = Inr y)"
  by (cases m) (simp_all add: thn_def)

lemma thn_InrE:
  assumes "thn m f = Inr y"
  obtains x where "m = Inr x" and "f x = Inr y"
  using assms by (cases m) (simp_all add: thn_def)

lemma call_statistics_inference:
  "call_statistics l x (PyBool False) ax ndims ra bs s0 o0 = Inr r \<longleftrightarrow>
     (\<exists>mm mv. moving_mean l = Some mm \<and> moving_variance l = Some mv
        \<and> r = (mm, mv, s0, o0, l, []))"
  by (auto simp add: call_statistics_def constant_value_def thn_eq_Inr the_var_def
      split: option.splits)

lemma call_generic_inference:
  assumes "call_generic l x (PyBool False) = Inr res"
  shows "updates res = [] \<and> layer_after res = l
     \<and> (\<exists>mm mv ax ra bs sc off m' v'.
           moving_mean l = Some mm \<and> moving_variance l = Some mv
         \<and> call_axis l = Inr ax
         \<and> reduction_axes_of l ax (length (shape x)) = Inr ra
         \<and> call_broadcast_shape ax (shape x) = Inr bs
         \<and> broadcast_opt (length (shape x)) ra bs (gamma l) = Inr sc
         \<and> broadcast_opt (length (shape x)) ra bs (beta l) = Inr off
         \<and> broadcast_tensor (length (shape x)) ra bs mm = Inr m'
         \<and> broadcast_tensor (length (shape x)) ra bs mv = Inr v'
         \<and> batch_normalization x m' v' off sc (epsilon l) = Inr (outputs res))"
proof -
  from assms obtain ax ra bs sc off st m' v' out where
      a: "call_axis l = Inr ax" "reduction_axes_of l ax (length (shape x)) = Inr ra"
         "call_broadcast_shape ax (shape x) = Inr bs"
         "broadcast_opt (length (shape x)) ra bs (gamma l) = Inr sc"
         "broadcast_opt (length (shape x)) ra bs (beta l) = Inr off"
    and st: "call_statistics l x (PyBool False) ax (length (shape x)) ra bs sc off = Inr st"
    and r: "(case st of (mean, variance, scl, offset, l', ups) \<Rightarrow>
             thn (broadcast_tensor (length (shape x)) ra bs mean) (\<lambda>mean'.
             thn (broadcast_tensor (length (shape x)) ra bs variance) (\<lambda>variance'.
             thn (batch_normalization x mean' variance' offset scl (epsilon l)) (\<lambda>out.
               if shape out \<noteq> shape x then Inl InvalidArgument
               else Inr \<lparr>outputs = out, layer_after = l', updates = ups\<rparr>)))) = Inr res"
    unfolding call_generic_def Let_def thn_eq_Inr by blast
  from st obtain mm mv where mm: "moving_mean l = Some mm" "moving_variance l = Some mv"
    and st': "st = (mm, mv, sc, off, l, [])"
    unfolding call_statistics_inference by blast
  from r obtain m' v' out where
      b: "broadcast_tensor (length (shape x)) ra bs mm = Inr m'"
         "broadcast_tensor (length (shape x)) ra bs mv = Inr v'"
         "batch_normalization x m' v' off sc (epsilon l) = Inr out"
    and res: "(if shape out \<noteq> shape x then Inl InvalidArgument
               else Inr \<lparr>outputs = out, layer_after = l, updates = []\<rparr>) = Inr res"
    unfolding st' prod.case thn_eq_Inr by blast
  from res have "res = \<lparr>outputs = out, layer_after = l, updates = []\<rparr>"
    by (simp split: if_splits)
  then show ?thesis using a mm b by simp
qed

lemma fused_batch_norm_call_inference:
  assumes "fused_batch_norm_call eng l x (PyBool False) = Inr res"
  shows "updates res = [] \<and> layer_after res = l
     \<and> (\<exists>g b mm mv m v.
           moving_mean l = Some mm \<and> moving_variance l = Some mv
         \<and> fused_batch_norm eng x g b mm mv (epsilon l) False (data_format l) None
             = Inr (outputs res, m, v))"
proof -
  from assms obtain b g sz mm mv r where
      a: "the_var (moving_mean l) = Inr mm" "the_var (moving_variance l) = Inr mv"
    and k: "fused_batch_norm eng x g b mm mv (epsilon l) False (data_format l) None = Inr r"
    and r: "(case r of (output, mean, variance0) \<Rightarrow>
              thn (bessels_correction l x variance0 True) (\<lambda>variance.
                Inr \<lparr>outputs = output, layer_after = l, updates = []\<rparr>)) = Inr res"
    unfolding fused_batch_norm_call_def Let_def thn_eq_Inr
    by (auto simp add: run_value_def constant_value_def)
  obtain out m v where rr: "r = (out, m, v)" by (cases r) auto
  from r have "res = \<lparr>outputs = out, layer_after = l, updates = []\<rparr>"
    unfolding rr prod.case thn_eq_Inr by auto
  moreover from a have "moving_mean l = Some mm" "moving_variance l = Some mv"
    by (auto simp add: the_var_def split: option.splits)
  ultimately show ?thesis using k rr by auto
qed

text \<open>
  Claim C10. Under V2 behaviour a layer whose \<open>trainable\<close> flag is false turns every
  \<open>training\<close> argument into \<open>False\<close>: \<open>call\<close> returns what it returns for
  \<open>training=False\<close>, gives no update to \<open>add_update\<close> and leaves the layer as it
  is; on the generic path the outputs are \<open>batch_normalization\<close> of the inputs with
  \<open>moving_mean\<close> and \<open>moving_variance\<close>, and on the fused path they are the
  kernel's outputs in inference mode on these two variables.
\<close>

theorem frozen_layer_is_inference:
  assumes "use_v2_behavior l" and "\<not> trainable l"
  shows "get_training_value l tr = PyBool False
       \<and> call eng l x tr = call eng l x (Some (PyBool False))
       \<and> (\<forall>res. call eng l x tr = Inr res \<longrightarrow> updates res = [] \<and> layer_after res = l)
       \<and> (\<forall>res. call eng l x tr = Inr res \<and> virtual_batch_size l = None
                  \<and> fused l \<noteq> Some True \<longrightarrow>
             (\<exists>mm mv ax ra bs sc off m' v'.
                 moving_mean l = Some mm \<and> moving_variance l = Some mv
               \<and> call_axis l = Inr ax
               \<and> reduction_axes_of l ax (length (shape x)) = Inr ra
               \<and> call_broadcast_shape ax (shape x) = Inr bs
               \<and> broadcast_opt (length (shape x)) ra bs (gamma l) = Inr sc
               \<and> broadcast_opt (length (shape x)) ra bs (beta l) = Inr off
               \<and> broadcast_tensor (length (shape x)) ra bs mm = Inr m'
               \<and> broadcast_tensor (length (shape x)) ra bs mv = Inr v'
               \<and> batch_normalization x m' v' off sc (epsilon l) = Inr (outputs res)))
       \<and> (\<forall>res. call eng l x tr = Inr res \<and> virtual_batch_size l = None
                  \<and> fused l = Some True \<longrightarrow>
             (\<exists>g b mm mv m v.
                 moving_mean l = Some mm \<and> moving_variance l = Some mv
               \<and> fused_batch_norm eng x g b mm mv (epsilon l) False (data_format l) None
                   = Inr (outputs res, m, v)))"
proof -
  have t: "get_training_value l tr' = PyBool False" for tr'
    using assms by (rule get_training_value_frozen)
  have c1: "call eng l x tr = call eng l x (Some (PyBool False))"
    by (simp add: call_def t)
  have c2: "updates res = [] \<and> layer_after res = l" if r: "call eng l x tr = Inr res" for res
  proof -
    from r obtain p where
        q0: "(case p of (inputs, undo) \<Rightarrow>
               thn (if fused l = Some True then fused_batch_norm_call eng l inputs (PyBool False)
                    else call_generic l inputs (PyBool False))
                 (\<lambda>res. case undo of None \<Rightarrow> Inr res
                    | Some original_shape \<Rightarrow>
                        thn (reshape (outputs res) original_shape)
                          (\<lambda>out. Inr (res\<lparr>outputs := out\<rparr>)))) = Inr res"
      unfolding call_def Let_def t by (rule thn_InrE)
    obtain y undo where "p = (y, undo)" by (cases p)
    with q0 have
        "thn (if fused l = Some True then fused_batch_norm_call eng l y (PyBool False)
              else call_generic l y (PyBool False))
           (\<lambda>res. case undo of None \<Rightarrow> Inr res
              | Some original_shape \<Rightarrow>
                  thn (reshape (outputs res) original_shape)
                    (\<lambda>out. Inr (res\<lparr>outputs := out\<rparr>))) = Inr res"
      by simp
    then obtain res0 where
        b: "(if fused l = Some True then fused_batch_norm_call eng l y (PyBool False)
             else call_generic l y (PyBool False)) = Inr res0"
      and u: "(case undo of None \<Rightarrow> Inr res0
               | Some original_shape \<Rightarrow>
                   thn (reshape (outputs res0) original_shape)
                     (\<lambda>out. Inr (res0\<lparr>outputs := out\<rparr>))) = Inr res"
      by (rule thn_InrE)
    have "updates res0 = [] \<and> layer_after res0 = l"
      using b call_generic_inference[of l y res0] fused_batch_norm_call_inference[of eng l y res0]
      by (auto split: if_splits)
    moreover have "updates res = updates res0 \<and> layer_after res = layer_after res0"
      using u by (cases undo) (auto simp add: thn_eq_Inr)
    ultimately show ?thesis by simp
  qed
  have c3: "call eng l x tr =
      (if fused l = Some True then fused_batch_norm_call eng l x (PyBool False)
       else call_generic l x (PyBool False))" if "virtual_batch_size l = None"
    using that by (cases "if fused l = Some True then fused_batch_norm_call eng l x (PyBool False)
       else call_generic l x (PyBool False)") (simp_all add: call_def t thn_def)
  have c4: "\<exists>mm mv ax ra bs sc off m' v'.
                 moving_mean l = Some mm \<and> moving_variance l = Some mv
               \<and> call_axis l = Inr ax
               \<and> reduction_axes_of l ax (length (shape x)) = Inr ra
               \<and> call_broadcast_shape ax (shape x) = Inr bs
               \<and> broadcast_opt (length (shape x)) ra bs (gamma l) = Inr sc
               \<and> broadcast_opt (length (shape x)) ra bs (beta l) = Inr off
               \<and> broadcast_tensor (length (shape x)) ra bs mm = Inr m'
               \<and> broadcast_tensor (length (shape x)) ra bs mv = Inr v'
               \<and> batch_normalization x m' v' off sc (epsilon l) = Inr (outputs res)"
    if "call eng l x tr = Inr res \<and> virtual_batch_size l = None \<and> fused l \<noteq> Some True"
    for res
  proof -
    from that have "call_generic l x (PyBool False) = Inr res" using c3 by simp
    then show ?thesis using call_generic_inference[of l x res] by simp
  qed
  have c5: "\<exists>g b mm mv m v.
                 moving_mean l = Some mm \<and> moving_variance l = Some mv
               \<and> fused_batch_norm eng x g b mm mv (epsilon l) False (data_format l) None
                   = Inr (outputs res, m, v)"
    if "call eng l x tr = Inr res \<and> virtual_batch_size l = None \<and> fused l = Some True"
    for res
  proof -
    from that have "fused_batch_norm_call eng l x (PyBool False) = Inr res" using c3 by simp
    then show ?thesis using fused_batch_norm_call_inference[of eng l x res] by simp
  qed
  show ?thesis
    apply (intro conjI)
    subgoal by (rule t)
    subgoal by (rule c1)
    subgoal using c2 by blast
    subgoal using c4 by blast
    subgoal using c5 by blast
    done
qed

lemma upt_numeral_eval: "[0..<2] = [0, 1]" "[0..<1] = [0]" "[0..<3] = [0, 1, 2]"
  by (simp_all add: upt_rec)

lemmas tensor_eval = tbinop_def broadcast_shape_def bdim_def bidx_def tget_def
  tadd_def tsub_def tmul_def tdiv_def tconstant_def tmap_def thn_def upt_numeral_eval

lemma frozen_layer_fields:
  "use_v2_behavior frozen_layer" "\<not> trainable frozen_layer"
  "virtual_batch_size frozen_layer = None"
  "fused frozen_layer = Some False" "axis frozen_layer = AxisList [1]"
  "gamma frozen_layer = Some \<lparr>shape = [2], vals = [Fin 2, Fin 2]\<rparr>"
  "beta frozen_layer = Some \<lparr>shape = [2], vals = [Fin 1, Fin 1]\<rparr>"
  "moving_mean frozen_layer = Some \<lparr>shape = [2], vals = [Fin 1, Fin 2]\<rparr>"
  "moving_variance frozen_layer = Some \<lparr>shape = [2], vals = [Fin 3, Fin 3]\<rparr>"
  "epsilon frozen_layer = 1"
  by (simp_all add: frozen_layer_def init_attributes_def default_args_def)

lemma frozen_layer_normalization:
  "batch_normalization \<lparr>shape = [2, 2], vals = [Fin 1, Fin 2, Fin 3, Fin 4]\<rparr>
     \<lparr>shape = [2], vals = [Fin 1, Fin 2]\<rparr> \<lparr>shape = [2], vals = [Fin 3, Fin 3]\<rparr>
     (Some \<lparr>shape = [2], vals = [Fin 1, Fin 1]\<rparr>)
     (Some \<lparr>shape = [2], vals = [Fin 2, Fin 2]\<rparr>) 1
   = Inr \<lparr>shape = [2, 2], vals = [Fin 1, Fin 1, Fin 3, Fin 3]\<rparr>"
proof -
  have four: "sqrt 4 = 2" by (rule real_sqrt_four)
  show ?thesis
    by (simp add: batch_normalization_def tensor_eval fadd_def fmul_def fsub_def four)
qed

lemma frozen_layer_inference_call:
  "call no_kernel_engine frozen_layer
     \<lparr>shape = [2, 2], vals = [Fin 1, Fin 2, Fin 3, Fin 4]\<rparr> (Some (PyBool False))
   = Inr \<lparr>outputs = \<lparr>shape = [2, 2], vals = [Fin 1, Fin 1, Fin 3, Fin 3]\<rparr>,
          layer_after = frozen_layer, updates = []\<rparr>"
  by (simp add: call_def get_training_value_def frozen_layer_fields Let_def thn_def
      call_generic_def call_axis_def reduction_axes_of_def call_broadcast_shape_def
      broadcast_opt_def broadcast_tensor_def call_statistics_def constant_value_def the_var_def
      frozen_layer_normalization upt_numeral_eval)

theorem frozen_layer_is_inference_witness:
  "get_training_value frozen_layer (Some (PyBool True)) = PyBool False
   \<and> call no_kernel_engine frozen_layer
        \<lparr>shape = [2, 2], vals = [Fin 1, Fin 2, Fin 3, Fin 4]\<rparr> (Some (PyBool True))
      = Inr \<lparr>outputs = \<lparr>shape = [2, 2], vals = [Fin 1, Fin 1, Fin 3, Fin 3]\<rparr>,
             layer_after = frozen_layer, updates = []\<rparr>"
  using frozen_layer_is_inference[of frozen_layer "Some (PyBool True)" no_kernel_engine
          "\<lparr>shape = [2, 2], vals = [Fin 1, Fin 2, Fin 3, Fin 4]\<rparr>"]
  by (simp add: frozen_layer_fields frozen_layer_inference_call)

section \<open>Merging running statistics\<close>

lemma sum_sq_shift:
  "sum_list (map (\<lambda>x. (x - c)\<^sup>2) xs)
   = sum_list (map (\<lambda>x. x\<^sup>2) xs) - 2 * c * sum_list xs + real (length xs) * c\<^sup>2"
  by (induction xs) (simp_all add: power2_eq_square algebra_simps)

lemma variance_about:
  fixes n q a M :: real
  assumes "n > 0"
  shows "n * ((q - 2 * (a / n) * a + n * (a / n)\<^sup>2) / n + (a / n - M)\<^sup>2)
         = q - 2 * M * a + n * M\<^sup>2"
  using assms by (simp add: power2_eq_square field_simps)

lemma adapt_append:
  assumes "xs \<noteq> []" and "ys \<noteq> []"
  shows "merge_two (adapt xs) (adapt ys) = adapt (xs @ ys)"
proof -
  let ?n = "real (length xs)" and ?m = "real (length ys)"
  have n: "?n > 0" and m: "?m > 0" using assms by simp_all
  have nm: "?n + ?m > 0" using n m by linarith
  have mean: "(?n * (sum_list xs / ?n) + ?m * (sum_list ys / ?m)) / (?n + ?m)
              = (sum_list xs + sum_list ys) / (?n + ?m)"
    using n m by simp
  let ?M = "(sum_list xs + sum_list ys) / (?n + ?m)"
  have vx: "?n * (sum_list (map (\<lambda>x. (x - sum_list xs / ?n)\<^sup>2) xs) / ?n + (sum_list xs / ?n - ?M)\<^sup>2)
            = sum_list (map (\<lambda>x. (x - ?M)\<^sup>2) xs)"
    unfolding sum_sq_shift[of "sum_list xs / ?n"] sum_sq_shift[of ?M]
    by (rule variance_about[OF n])
  have vy: "?m * (sum_list (map (\<lambda>x. (x - sum_list ys / ?m)\<^sup>2) ys) / ?m + (sum_list ys / ?m - ?M)\<^sup>2)
            = sum_list (map (\<lambda>x. (x - ?M)\<^sup>2) ys)"
    unfolding sum_sq_shift[of "sum_list ys / ?m"] sum_sq_shift[of ?M]
    by (rule variance_about[OF m])
  show ?thesis
    unfolding merge_two_def adapt_def Let_def
    by (simp add: mean vx vy del: of_nat_add) (simp add: mean vx vy)
qed

text \<open>
  Claim C7. For data split into non-empty shards, adapting one tracker per shard and
  merging them gives the count, mean and variance of a tracker adapted on the
  concatenated data (exactly, over the reals); the shards \<open>[1,2,3]\<close> and \<open>[4,5]\<close>
  merge to the mean 3 and the population variance 2 of \<open>[1,2,3,4,5]\<close>.
\<close>

theorem merge_state_adapt:
  assumes "xs \<noteq> []" and "list_all (\<lambda>s. s \<noteq> []) shards"
  shows "merge_state (adapt xs) (map adapt shards) = adapt (xs @ concat shards)"
  using assms
proof (induction shards arbitrary: xs)
  case Nil
  then show ?case by (simp add: merge_state_def)
next
  case (Cons s shards)
  then have s: "s \<noteq> []" and r: "list_all (\<lambda>s. s \<noteq> []) shards" by simp_all
  have "merge_state (adapt xs) (map adapt (s # shards))
        = merge_state (merge_two (adapt xs) (adapt s)) (map adapt shards)"
    by (simp add: merge_state_def)
  also have "\<dots> = merge_state (adapt (xs @ s)) (map adapt shards)"
    using adapt_append[OF Cons.prems(1) s] by simp
  also have "\<dots> = adapt ((xs @ s) @ concat shards)"
    using Cons.IH[of "xs @ s"] Cons.prems(1) r by simp
  finally show ?case by simp
qed

theorem merge_state_adapt_witness:
  "merge_state (adapt [1, 2, 3]) (map adapt [[4, 5]]) = adapt ([1, 2, 3] @ concat [[4, 5]])
   \<and> t_mean (merge_state (adapt [1, 2, 3]) (map adapt [[4, 5]])) = 3
   \<and> t_variance (merge_state (adapt [1, 2, 3]) (map adapt [[4, 5]])) = 2"
proof -
  have a: "adapt ([1, 2, 3] @ concat [[4, 5]]) = \<lparr>t_count = 5, t_mean = 3, t_variance = 2\<rparr>"
    by (simp add: adapt_def Let_def power2_eq_square)
  show ?thesis
    using merge_state_adapt[of "[1, 2, 3]" "[[4, 5]]"] a by simp
qed

section \<open>The order of the axis specification\<close>

text \<open>
  Claim C8. Two axis specifications that resolve to the same set of axes (a
  reordering, or a negative spelling of the same axes) give the same result of adapting
  on a tensor and normalizing it.
\<close>

theorem axis_order_invariance:
  assumes "set (spec_resolve_axes (length (shape x)) a)
           = set (spec_resolve_axes (length (shape x)) b)"
    and "distinct (spec_resolve_axes (length (shape x)) a)
         \<longleftrightarrow> distinct (spec_resolve_axes (length (shape x)) b)"
  shows "adapt_and_normalize a eps x = adapt_and_normalize b eps x"
proof -
  have "spec_reduction_axes (length (shape x)) a = spec_reduction_axes (length (shape x)) b"
    using assms(1) by (simp add: spec_reduction_axes_def)
  moreover have "list_ex (\<lambda>a. a < 0 \<or> a \<ge> int (length (shape x)))
                   (spec_resolve_axes (length (shape x)) a)
             \<longleftrightarrow> list_ex (\<lambda>a. a < 0 \<or> a \<ge> int (length (shape x)))
                   (spec_resolve_axes (length (shape x)) b)"
    using assms(1) by (simp add: list_ex_iff)
  ultimately show ?thesis
    using assms(2) by (simp add: adapt_and_normalize_def Let_def)
qed

text \<open>The data of the test of the axis permutations, with \<open>epsilon = 0\<close>.\<close>

lemma permutation_test_moments:
  "nn_moments \<lparr>shape = [2, 2, 3],
               vals = [Fin 0, Fin 1, Fin 2, Fin 0, Fin 2, Fin 6,
                       Fin 2, Fin 3, Fin 4, Fin 3, Fin 6, Fin 10]\<rparr> [0] True
   = Inr (\<lparr>shape = [1, 2, 3], vals = [Fin 1, Fin 2, Fin 3, Fin (3 / 2), Fin 4, Fin 8]\<rparr>,
          \<lparr>shape = [1, 2, 3], vals = [Fin 1, Fin 1, Fin 1, Fin (9 / 4), Fin 4, Fin 4]\<rparr>)"
  by code_simp

lemma permutation_test_output:
  "adapt_and_normalize [1, 2] 0
     \<lparr>shape = [2, 2, 3],
      vals = [Fin 0, Fin 1, Fin 2, Fin 0, Fin 2, Fin 6,
              Fin 2, Fin 3, Fin 4, Fin 3, Fin 6, Fin 10]\<rparr>
   = Inr \<lparr>shape = [2, 2, 3],
          vals = [Fin (- 1), Fin (- 1), Fin (- 1), Fin (- 1), Fin (- 1), Fin (- 1),
                  Fin 1, Fin 1, Fin 1, Fin 1, Fin 1, Fin 1]\<rparr>"
proof -
  have four: "sqrt 4 = 2" by (rule real_sqrt_four)
  have nine: "sqrt (9 / 4) = 3 / 2" by (rule real_sqrt_unique) (simp_all add: power2_eq_square)
  have r: "spec_reduction_axes (Suc (Suc (Suc 0))) [1, 2] = [0]"
    by (simp add: spec_reduction_axes_def spec_resolve_axes_def upt_rec)
  show ?thesis
    by (simp add: adapt_and_normalize_def Let_def spec_resolve_axes_def r
        permutation_test_moments spec_normalize_def tensor_eval fsub_def fadd_def four nine)
qed

theorem axis_order_invariance_witness:
  "adapt_and_normalize [2, 1] 0
     \<lparr>shape = [2, 2, 3],
      vals = [Fin 0, Fin 1, Fin 2, Fin 0, Fin 2, Fin 6,
              Fin 2, Fin 3, Fin 4, Fin 3, Fin 6, Fin 10]\<rparr>
   = Inr \<lparr>shape = [2, 2, 3],
          vals = [Fin (- 1), Fin (- 1), Fin (- 1), Fin (- 1), Fin (- 1), Fin (- 1),
                  Fin 1, Fin 1, Fin 1, Fin 1, Fin 1, Fin 1]\<rparr>
   \<and> adapt_and_normalize [- 1, 1] 0
     \<lparr>shape = [2, 2, 3],
      vals = [Fin 0, Fin 1, Fin 2, Fin 0, Fin 2, Fin 6,
              Fin 2, Fin 3, Fin 4, Fin 3, Fin 6, Fin 10]\<rparr>
   = Inr \<lparr>shape = [2, 2, 3],
          vals = [Fin (- 1), Fin (- 1), Fin (- 1), Fin (- 1), Fin (- 1), Fin (- 1),
                  Fin 1, Fin 1, Fin 1, Fin 1, Fin 1, Fin 1]\<rparr>"
  using axis_order_invariance[of "\<lparr>shape = [2, 2, 3],
      vals = [Fin 0, Fin 1, Fin 2, Fin 0, Fin 2, Fin 6,
              Fin 2, Fin 3, Fin 4, Fin 3, Fin 6, Fin 10]\<rparr>" "[1, 2]" "[2, 1]" 0]
    axis_order_invariance[of "\<lparr>shape = [2, 2, 3],
      vals = [Fin 0, Fin 1, Fin 2, Fin 0, Fin 2, Fin 6,
              Fin 2, Fin 3, Fin 4, Fin 3, Fin 6, Fin 10]\<rparr>" "[1, 2]" "[- 1, 1]" 0]
  by (simp add: spec_resolve_axes_def permutation_test_output insert_commute)

text \<open>
  The batch normalization layer of the sources computes its reduction axes from the
  set of its axes in the same way.
\<close>

lemma reduction_axes_of_set:
  "set ax = set ax' \<Longrightarrow> reduction_axes_of l ax n = reduction_axes_of l ax' n"
  by (simp add: reduction_axes_of_def)

section \<open>Indices and broadcasting\<close>


lemma indices_nth_flat:
  assumes "idx \<in> set (indices s)"
  shows "indices s ! flat_index s idx = idx"
proof -
  from assms obtain k where k: "k < length (indices s)" "indices s ! k = idx"
    by (auto simp add: in_set_conv_nth)
  have "map (flat_index s) (indices s) ! k = [0..<prod_list s] ! k"
    by (simp add: map_flat_index)
  then have "flat_index s idx = k" using k by (simp add: length_indices)
  then show ?thesis using k by simp
qed

lemma tget_map_indices:
  assumes "idx \<in> set (indices s)"
  shows "tget \<lparr>shape = s, vals = map g (indices s)\<rparr> idx = g idx"
  using assms flat_index_lt[OF assms] indices_nth_flat[OF assms]
  by (simp add: tget_def length_indices)


lemma vals_as_tget:
  assumes "wf t"
  shows "vals t = map (tget t) (indices (shape t))"
proof -
  have a: "map (tget t) (indices (shape t))
        = map (\<lambda>idx. vals t ! flat_index (shape t) idx) (indices (shape t))"
    by (rule map_cong) (simp_all add: tget_def)
  have b: "map (\<lambda>idx. vals t ! flat_index (shape t) idx) (indices (shape t)) = vals t"
    using assms by (intro map_nth_flat) (simp add: wf_def)
  show ?thesis unfolding a b by (rule refl)
qed

text \<open>A shape that broadcasts into \<open>s\<close>.\<close>

lemma bshape_rev_into:
  "list_all2 (\<lambda>d q. q = d \<or> q = 1) s2 p \<Longrightarrow> bshape_rev (s2 @ r) p = Some (s2 @ r)"
  by (induction rule: list_all2_induct) (auto simp add: bdim_def bshape_rev_Nil2)

lemma bshape_rev_into':
  "list_all2 (\<lambda>d q. q = d \<or> q = 1) s2 p \<Longrightarrow> bshape_rev p (s2 @ r) = Some (s2 @ r)"
  by (induction rule: list_all2_induct) (auto simp add: bdim_def)

lemma broadcasts_into_split:
  assumes "broadcasts_into p s"
  shows "s = take (length s - length p) s @ drop (length s - length p) s"
    and "list_all2 (\<lambda>d q. q = d \<or> q = 1) (rev (drop (length s - length p) s)) (rev p)"
  using assms by (simp_all add: broadcasts_into_def)

lemma broadcast_shape_into:
  assumes "broadcasts_into p s"
  shows "broadcast_shape s p = Some s" and "broadcast_shape p s = Some s"
proof -
  let ?k = "length s - length p"
  have r: "rev s = rev (drop ?k s) @ rev (take ?k s)"
    by (metis append_take_drop_id rev_append)
  note a = broadcasts_into_split(2)[OF assms]
  show "broadcast_shape s p = Some s"
    unfolding broadcast_shape_def r using bshape_rev_into[OF a, of "rev (take ?k s)"]
    by (simp flip: r)
  show "broadcast_shape p s = Some s"
    unfolding broadcast_shape_def r using bshape_rev_into'[OF a, of "rev (take ?k s)"]
    by (simp flip: r)
qed


lemma tbinop_into:
  assumes "broadcasts_into (shape b) (shape a)" and "wf a"
  shows "tbinop f a b =
     Inr \<lparr>shape = shape a,
          vals = map (\<lambda>idx. f (tget a idx) (tget b (bidx (shape b) idx))) (indices (shape a))\<rparr>"
proof -
  have "map (\<lambda>idx. f (tget a (bidx (shape a) idx)) (tget b (bidx (shape b) idx))) (indices (shape a))
      = map (\<lambda>idx. f (tget a idx) (tget b (bidx (shape b) idx))) (indices (shape a))"
    by (rule map_cong) (simp_all add: bidx_same)
  then show ?thesis
    by (simp add: tbinop_def broadcast_shape_into(1)[OF assms(1)])
qed

lemma tbinop_into':
  assumes "broadcasts_into (shape b) (shape a)" and "wf a"
  shows "tbinop f b a =
     Inr \<lparr>shape = shape a,
          vals = map (\<lambda>idx. f (tget b (bidx (shape b) idx)) (tget a idx)) (indices (shape a))\<rparr>"
proof -
  have "map (\<lambda>idx. f (tget b (bidx (shape b) idx)) (tget a (bidx (shape a) idx))) (indices (shape a))
      = map (\<lambda>idx. f (tget b (bidx (shape b) idx)) (tget a idx)) (indices (shape a))"
    by (rule map_cong) (simp_all add: bidx_same)
  then show ?thesis
    by (simp add: tbinop_def broadcast_shape_into(2)[OF assms(1)])
qed

lemma broadcasts_into_refl: "broadcasts_into s s"
  by (simp add: broadcasts_into_def list_all2_conv_all_nth)

lemma broadcasts_into_reduced: "broadcasts_into (reduced_shape s axes) s"
  using reduced_shape_mask[of s axes]
  by (simp add: broadcasts_into_def reduced_shape_def)

section \<open>Constant inputs\<close>













section \<open>The transform on a constant input\<close>

lemma tbinop_into_tget:
  assumes "broadcasts_into (shape b) (shape a)" and "wf a"
  obtains r where "tbinop f a b = Inr r" and "shape r = shape a" and "wf r"
    and "\<And>idx. idx \<in> set (indices (shape a))
           \<Longrightarrow> tget r idx = f (tget a idx) (tget b (bidx (shape b) idx))"
proof -
  let ?r = "\<lparr>shape = shape a,
          vals = map (\<lambda>idx. f (tget a idx) (tget b (bidx (shape b) idx))) (indices (shape a))\<rparr>"
  have "tbinop f a b = Inr ?r" by (rule tbinop_into[OF assms])
  moreover have "shape ?r = shape a" by simp
  moreover have "wf ?r" by (simp add: wf_def length_indices)
  moreover have "tget ?r idx = f (tget a idx) (tget b (bidx (shape b) idx))"
    if "idx \<in> set (indices (shape a))" for idx
    using that by (rule tget_map_indices)
  ultimately show ?thesis using that by blast
qed







text \<open>With \<open>epsilon = 0\<close> the same transform divides by zero.\<close>

lemma zero_epsilon_blows_up:
  "batch_normalization (tfill [2, 2] 5) (tfill [2] 5) (tfill [2] 0)
        (Some \<lparr>shape = [2], vals = [Fin 1, Fin 3]\<rparr>)
        (Some \<lparr>shape = [2], vals = [Fin 2, Fin 2]\<rparr>) 0
      = Inr \<lparr>shape = [2, 2], vals = [NaN, NaN, NaN, NaN]\<rparr>"
  by (simp add: batch_normalization_def tensor_eval tfill_def fadd_def fmul_def fsub_def)

text \<open>
  A call in training mode on a constant batch: the layer of the example above, made
  trainable, returns its \<open>beta\<close> and moves its statistics towards those of the batch.
\<close>

lemma constant_batch_moments:
  "nn_moments \<lparr>shape = [2, 2], vals = [Fin 5, Fin 5, Fin 5, Fin 5]\<rparr> [0] False
   = Inr (\<lparr>shape = [2], vals = [Fin 5, Fin 5]\<rparr>, \<lparr>shape = [2], vals = [Fin 0, Fin 0]\<rparr>)"
  by code_simp

lemma constant_batch_normalization:
  "batch_normalization \<lparr>shape = [2, 2], vals = [Fin 5, Fin 5, Fin 5, Fin 5]\<rparr>
     \<lparr>shape = [2], vals = [Fin 5, Fin 5]\<rparr> \<lparr>shape = [2], vals = [Fin 0, Fin 0]\<rparr>
     (Some \<lparr>shape = [2], vals = [Fin 1, Fin 1]\<rparr>)
     (Some \<lparr>shape = [2], vals = [Fin 2, Fin 2]\<rparr>) 1
   = Inr \<lparr>shape = [2, 2], vals = [Fin 1, Fin 1, Fin 1, Fin 1]\<rparr>"
  by (simp add: batch_normalization_def tensor_eval fadd_def fmul_def fsub_def)

lemma constant_batch_call_example:
  "\<exists>res. call no_kernel_engine (frozen_layer\<lparr>trainable := True\<rparr>)
            \<lparr>shape = [2, 2], vals = [Fin 5, Fin 5, Fin 5, Fin 5]\<rparr> (Some (PyBool True))
          = Inr res
     \<and> outputs res = \<lparr>shape = [2, 2], vals = [Fin 1, Fin 1, Fin 1, Fin 1]\<rparr>
     \<and> updates res =
         [(MovingMean, \<lparr>shape = [2], vals = [Fin (26 / 25), Fin (203 / 100)]\<rparr>),
          (MovingVariance, \<lparr>shape = [2], vals = [Fin (297 / 100), Fin (297 / 100)]\<rparr>)]"
proof -
  have f: "renorm frozen_layer = False" "adjustment frozen_layer = None"
      "support_zero_size_input frozen_layer = False" "momentum frozen_layer = 99 / 100"
    by (simp_all add: frozen_layer_def init_attributes_def default_args_def)
  have u1: "assign_moving_average \<lparr>shape = [2], vals = [Fin 1, Fin 2]\<rparr>
              \<lparr>shape = [2], vals = [Fin 5, Fin 5]\<rparr> (99 / 100) None
            = Inr \<lparr>shape = [2], vals = [Fin (26 / 25), Fin (203 / 100)]\<rparr>"
    using assign_moving_average_same[of "\<lparr>shape = [2], vals = [Fin 1, Fin 2]\<rparr>"
            "\<lparr>shape = [2], vals = [Fin 5, Fin 5]\<rparr>" "99 / 100" None]
    by (simp add: wf_def fsub_def fmul_def)
  have u2: "assign_moving_average \<lparr>shape = [2], vals = [Fin 3, Fin 3]\<rparr>
              \<lparr>shape = [2], vals = [Fin 0, Fin 0]\<rparr> (99 / 100) None
            = Inr \<lparr>shape = [2], vals = [Fin (297 / 100), Fin (297 / 100)]\<rparr>"
    using assign_moving_average_same[of "\<lparr>shape = [2], vals = [Fin 3, Fin 3]\<rparr>"
            "\<lparr>shape = [2], vals = [Fin 0, Fin 0]\<rparr>" "99 / 100" None]
    by (simp add: wf_def fsub_def fmul_def)
  show ?thesis
    by (simp add: call_def get_training_value_def frozen_layer_fields f Let_def thn_def
        call_generic_def call_axis_def reduction_axes_of_def call_broadcast_shape_def
        broadcast_opt_def broadcast_tensor_def call_statistics_def constant_value_def
        run_value_def the_var_def call_training_branch_def call_adjustment_def moments_def
        calculate_mean_and_var_def constant_batch_moments call_new_moments_def
        call_input_batch_size_def call_renorm_def mean_update_def variance_update_def u1 u2
        constant_batch_normalization upt_numeral_eval)
qed

section \<open>Virtual batches\<close>

lemma virtual_batch_layer_built:
  "make_layer True None False (PyBool False) virtual_batch_args (Some [Some 4, Some 1])
   = Inr virtual_batch_layer"
  by (simp add: make_layer_def init_def init_attributes_def virtual_batch_args_def
      default_args_def thn_def init_fused_def fused_can_be_used_def
      raise_if_fused_cannot_be_used_def axis_list_def init_renorm_clipping_def build_def
      resolve_axis_def build_virtual_batch_checks_def build_from_fused_def build_fused_def
      build_data_format_def build_param_shape_def build_weights_def Let_def list_insert_def
      virtual_batch_layer_def zeros_initializer_def ones_initializer_def upt_numeral_eval)

lemma virtual_batch_layer_fields:
  "use_v2_behavior virtual_batch_layer" "trainable virtual_batch_layer"
  "virtual_batch_size virtual_batch_layer = Some 2"
  "fused virtual_batch_layer = Some False" "axis virtual_batch_layer = AxisList [2]"
  "gamma virtual_batch_layer = Some (tfill [1, 1, 1] 1)"
  "beta virtual_batch_layer = Some (tfill [1, 1, 1] 0)"
  "moving_mean virtual_batch_layer = Some (tfill [1, 1, 1] 0)"
  "moving_variance virtual_batch_layer = Some (tfill [1, 1, 1] 1)"
  "epsilon virtual_batch_layer = 3" "momentum virtual_batch_layer = 99 / 100"
  "renorm virtual_batch_layer = False" "adjustment virtual_batch_layer = None"
  "support_zero_size_input virtual_batch_layer = False"
  by (simp_all add: virtual_batch_layer_def init_attributes_def virtual_batch_args_def
      default_args_def)

lemma virtual_batch_moments:
  "nn_moments \<lparr>shape = [2, 2, 1], vals = [Fin 1, Fin 2, Fin 3, Fin 4]\<rparr> [0] True
   = Inr (\<lparr>shape = [1, 2, 1], vals = [Fin 2, Fin 3]\<rparr>,
          \<lparr>shape = [1, 2, 1], vals = [Fin 1, Fin 1]\<rparr>)"
  by code_simp

lemma virtual_batch_new_moments:
  "reduce_mean \<lparr>shape = [1, 2, 1], vals = [Fin 2, Fin 3]\<rparr> [1] True
   = Inr \<lparr>shape = [1, 1, 1], vals = [Fin (5 / 2)]\<rparr>"
  "reduce_mean \<lparr>shape = [1, 2, 1], vals = [Fin 1, Fin 1]\<rparr> [1] True
   = Inr \<lparr>shape = [1, 1, 1], vals = [Fin 1]\<rparr>"
  by code_simp+

lemma virtual_batch_normalization:
  "batch_normalization \<lparr>shape = [2, 2, 1], vals = [Fin 1, Fin 2, Fin 3, Fin 4]\<rparr>
     \<lparr>shape = [1, 2, 1], vals = [Fin 2, Fin 3]\<rparr> \<lparr>shape = [1, 2, 1], vals = [Fin 1, Fin 1]\<rparr>
     (Some (tfill [1, 1, 1] 0)) (Some (tfill [1, 1, 1] 1)) 3
   = Inr \<lparr>shape = [2, 2, 1], vals = [Fin (- 1 / 2), Fin (- 1 / 2), Fin (1 / 2), Fin (1 / 2)]\<rparr>"
proof -
  have four: "sqrt 4 = 2" by (rule real_sqrt_four)
  show ?thesis
    by (simp add: batch_normalization_def tensor_eval tfill_def fadd_def fmul_def fsub_def four)
qed

lemma virtual_batch_call_generic:
  "call_generic virtual_batch_layer
     \<lparr>shape = [2, 2, 1], vals = [Fin 1, Fin 2, Fin 3, Fin 4]\<rparr> (PyBool True)
   = Inr \<lparr>outputs = \<lparr>shape = [2, 2, 1],
                       vals = [Fin (- 1 / 2), Fin (- 1 / 2), Fin (1 / 2), Fin (1 / 2)]\<rparr>,
          layer_after = virtual_batch_layer
            \<lparr>moving_mean := Some \<lparr>shape = [1, 1, 1], vals = [Fin (1 / 40)]\<rparr>,
             moving_variance := Some \<lparr>shape = [1, 1, 1], vals = [Fin 1]\<rparr>\<rparr>,
          updates = [(MovingMean, \<lparr>shape = [1, 1, 1], vals = [Fin (1 / 40)]\<rparr>),
                     (MovingVariance, \<lparr>shape = [1, 1, 1], vals = [Fin 1]\<rparr>)]\<rparr>"
proof -
  let ?x = "\<lparr>shape = [2, 2, 1], vals = [Fin 1, Fin 2, Fin 3, Fin 4]\<rparr>"
  let ?l = virtual_batch_layer
  have u1: "assign_moving_average (tfill [1, 1, 1] 0)
              \<lparr>shape = [1, 1, 1], vals = [Fin (5 / 2)]\<rparr> (99 / 100) None
            = Inr \<lparr>shape = [1, 1, 1], vals = [Fin (1 / 40)]\<rparr>"
    using assign_moving_average_same[of "tfill [1, 1, 1] 0"
            "\<lparr>shape = [1, 1, 1], vals = [Fin (5 / 2)]\<rparr>" "99 / 100" None]
    by (simp add: wf_def tfill_def fsub_def fmul_def)
  have u2: "assign_moving_average (tfill [1, 1, 1] 1)
              \<lparr>shape = [1, 1, 1], vals = [Fin 1]\<rparr> (99 / 100) None
            = Inr \<lparr>shape = [1, 1, 1], vals = [Fin 1]\<rparr>"
    using assign_moving_average_same[of "tfill [1, 1, 1] 1"
            "\<lparr>shape = [1, 1, 1], vals = [Fin 1]\<rparr>" "99 / 100" None]
    by (simp add: wf_def tfill_def fsub_def fmul_def)
  have ax: "call_axis ?l = Inr [2]"
    by (simp add: call_axis_def virtual_batch_layer_fields)
  have ra: "reduction_axes_of ?l [2] (length (shape ?x)) = Inr [0]"
    by (simp add: reduction_axes_of_def virtual_batch_layer_fields upt_rec)
  have bs: "call_broadcast_shape [2] (shape ?x) = Inr [1, 1, 1]"
    by (simp add: call_broadcast_shape_def)
  have bo: "broadcast_opt (Suc (Suc (Suc 0))) [0] [1, 1, 1] (Some (tfill [1, 1, 1] c))
            = Inr (Some (tfill [1, 1, 1] c))" for c
    by (simp add: broadcast_opt_def broadcast_tensor_def tfill_def thn_def)
  have bt: "broadcast_tensor (Suc (Suc (Suc 0))) [0] [1, 1, 1] \<lparr>shape = [1, 2, 1], vals = v\<rparr>
            = Inr \<lparr>shape = [1, 2, 1], vals = v\<rparr>" for v
    by (simp add: broadcast_tensor_def)
  have mo: "moments ?l ?x [0] True
            = Inr (\<lparr>shape = [1, 2, 1], vals = [Fin 2, Fin 3]\<rparr>,
                   \<lparr>shape = [1, 2, 1], vals = [Fin 1, Fin 1]\<rparr>)"
    by (simp add: moments_def calculate_mean_and_var_def virtual_batch_moments thn_def
        virtual_batch_layer_fields del: One_nat_def)
  have nm: "call_new_moments ?l \<lparr>shape = [1, 2, 1], vals = [Fin 2, Fin 3]\<rparr>
              \<lparr>shape = [1, 2, 1], vals = [Fin 1, Fin 1]\<rparr>
            = Inr (\<lparr>shape = [1, 1, 1], vals = [Fin (5 / 2)]\<rparr>,
                   \<lparr>shape = [1, 1, 1], vals = [Fin 1]\<rparr>)"
    by (simp add: call_new_moments_def virtual_batch_layer_fields virtual_batch_new_moments
        thn_def del: One_nat_def)
  have tb: "call_training_branch ?l ?x (PyBool True) [2] (Suc (Suc (Suc 0))) [0] [1, 1, 1]
              (Some (tfill [1, 1, 1] 1)) (Some (tfill [1, 1, 1] 0))
            = Inr (\<lparr>shape = [1, 2, 1], vals = [Fin 2, Fin 3]\<rparr>,
                   \<lparr>shape = [1, 2, 1], vals = [Fin 1, Fin 1]\<rparr>,
                   Some (tfill [1, 1, 1] 1), Some (tfill [1, 1, 1] 0),
                   ?l\<lparr>moving_mean := Some \<lparr>shape = [1, 1, 1], vals = [Fin (1 / 40)]\<rparr>,
                      moving_variance := Some \<lparr>shape = [1, 1, 1], vals = [Fin 1]\<rparr>\<rparr>,
                   [(MovingMean, \<lparr>shape = [1, 1, 1], vals = [Fin (1 / 40)]\<rparr>),
                    (MovingVariance, \<lparr>shape = [1, 1, 1], vals = [Fin 1]\<rparr>)])"
    unfolding call_training_branch_def Let_def
    by (simp add: call_adjustment_def virtual_batch_layer_fields thn_Inr mo nm run_value_def
        the_var_def call_input_batch_size_def call_renorm_def mean_update_def
        variance_update_def u1 u2 del: One_nat_def)
  show ?thesis
    unfolding call_generic_def Let_def ax thn_Inr ra bs
    by (simp add: virtual_batch_layer_fields bo thn_Inr call_statistics_def constant_value_def
        tb bt virtual_batch_normalization del: One_nat_def)
qed

lemma virtual_batch_call:
  "call no_kernel_engine virtual_batch_layer
     \<lparr>shape = [4, 1], vals = [Fin 1, Fin 2, Fin 3, Fin 4]\<rparr> (Some (PyBool True))
   = Inr \<lparr>outputs = \<lparr>shape = [4, 1],
                       vals = [Fin (- 1 / 2), Fin (- 1 / 2), Fin (1 / 2), Fin (1 / 2)]\<rparr>,
          layer_after = virtual_batch_layer
            \<lparr>moving_mean := Some \<lparr>shape = [1, 1, 1], vals = [Fin (1 / 40)]\<rparr>,
             moving_variance := Some \<lparr>shape = [1, 1, 1], vals = [Fin 1]\<rparr>\<rparr>,
          updates = [(MovingMean, \<lparr>shape = [1, 1, 1], vals = [Fin (1 / 40)]\<rparr>),
                     (MovingVariance, \<lparr>shape = [1, 1, 1], vals = [Fin 1]\<rparr>)]\<rparr>"
proof -
  let ?x = "\<lparr>shape = [4, 1], vals = [Fin 1, Fin 2, Fin 3, Fin 4]\<rparr>"
  have s: "virtual_batch_shapes 2 ?x = ([- 1, 1], [2, - 1, 1])"
    by (simp add: virtual_batch_shapes_def Let_def)
  have r1: "reshape ?x [2, - 1, 1]
           = Inr \<lparr>shape = [2, 2, 1], vals = [Fin 1, Fin 2, Fin 3, Fin 4]\<rparr>"
    by (simp add: reshape_def Let_def)
  have r2: "reshape \<lparr>shape = [2, 2, 1], vals = v\<rparr> [- 1, 1]
            = Inr \<lparr>shape = [4, 1], vals = v\<rparr>" for v
    by (simp add: reshape_def Let_def)
  have t: "get_training_value virtual_batch_layer (Some (PyBool True)) = PyBool True"
    by (simp add: get_training_value_def virtual_batch_layer_fields)
  show ?thesis
    unfolding call_def Let_def t
    by (simp add: virtual_batch_layer_fields s r1 thn_Inr virtual_batch_call_generic r2
        del: One_nat_def)
qed

section \<open>Virtual batches: the general case\<close>

lemma reduced_shape_length: "length (reduced_shape s axes) = length s"
  by (simp add: reduced_shape_def)

lemma reduced_shape_nth:
  "i < length s \<Longrightarrow> reduced_shape s axes ! i = (if i \<in> set axes then 1 else s ! i)"
  by (simp add: reduced_shape_def)

lemma reduced_shape_twice: "reduced_shape (reduced_shape s R) A = reduced_shape s (A @ R)"
  by (auto simp add: reduced_shape_def)

lemma reduced_shape_cong_set: "set A = set B \<Longrightarrow> reduced_shape s A = reduced_shape s B"
  by (simp add: reduced_shape_def)

lemma reduce_mean_keep:
  assumes "list_all (\<lambda>a. a < length (shape t)) axes"
  shows "\<exists>r. reduce_mean t axes True = Inr r \<and> shape r = reduced_shape (shape t) axes \<and> wf r"
  using assms
  by (auto simp add: reduce_mean_def list_ex_iff list_all_iff wf_def length_indices)

lemma nn_moments_keep:
  assumes "list_all (\<lambda>a. a < length (shape x)) axes"
  shows "\<exists>m v. nn_moments x axes True = Inr (m, v)
           \<and> shape m = reduced_shape (shape x) axes \<and> shape v = reduced_shape (shape x) axes
           \<and> wf m \<and> wf v"
proof -
  obtain m where m: "reduce_mean x axes True = Inr m"
      "shape m = reduced_shape (shape x) axes" "wf m"
    using reduce_mean_keep[OF assms] by auto
  have "broadcast_shape (shape x) (shape m) = Some (shape x)"
    by (simp add: m broadcast_shape_reduced)
  then obtain sq where sq: "squared_difference x m = Inr sq" "shape sq = shape x"
    by (simp add: squared_difference_def tbinop_def)
  have "list_all (\<lambda>a. a < length (shape sq)) axes" using assms sq by simp
  from reduce_mean_keep[OF this]
  obtain v where v: "reduce_mean sq axes True = Inr v"
      "shape v = reduced_shape (shape sq) axes" "wf v"
    by auto
  show ?thesis using m sq v by (simp add: nn_moments_def thn_def)
qed

lemma moments_positive_batch:
  assumes "shape x = n # r" and "0 < n" and "nn_moments x axes kd = Inr (m, v)"
    and "shape v = shape m"
  shows "moments l x axes kd = Inr (m, v)"
  using assms
  by (simp add: moments_def calculate_mean_and_var_def thn_def batch_size_def twhere_def
      zeros_like_def)

lemma tbinop_into_tget':
  assumes "broadcasts_into (shape b) (shape a)" and "wf a"
  obtains r where "tbinop f b a = Inr r" and "shape r = shape a" and "wf r"
proof -
  let ?r = "\<lparr>shape = shape a,
            vals = map (\<lambda>idx. f (tget b (bidx (shape b) idx)) (tget a idx)) (indices (shape a))\<rparr>"
  have "tbinop f b a = Inr ?r" using assms by (rule tbinop_into')
  moreover have "shape ?r = shape a" by simp
  moreover have "wf ?r" by (simp add: wf_def length_indices)
  ultimately show ?thesis by (rule that)
qed

lemma batch_normalization_ok:
  assumes x: "wf x"
    and m: "wf mean" "shape mean = ms"
    and v: "wf variance" "shape variance = ms"
    and into: "broadcasts_into ms (shape x)" "broadcasts_into ps ms"
    and off: "case offset of None \<Rightarrow> True | Some b \<Rightarrow> wf b \<and> shape b = ps"
    and sc: "case scl of None \<Rightarrow> True | Some g \<Rightarrow> wf g \<and> shape g = ps"
  shows "\<exists>out. batch_normalization x mean variance offset scl eps = Inr out
           \<and> shape out = shape x \<and> wf out"
proof -
  let ?ve = "\<lparr>shape = shape variance, vals = map (\<lambda>a. fadd a (Fin eps)) (vals variance)\<rparr>"
  have ve: "tadd variance (tconstant eps) = Inr ?ve"
    unfolding tadd_def tconstant_def using v(1) by (rule tbinop_scalar)
  let ?rs = "tmap frsqrt ?ve"
  have rs: "wf ?rs" "shape ?rs = ms" using v by (simp_all add: tmap_def wf_def)
  obtain inv_t where inv_t:
      "(case scl of None \<Rightarrow> Inr ?rs | Some g \<Rightarrow> tmul ?rs g) = Inr inv_t"
      "shape inv_t = ms" "wf inv_t"
  proof (cases scl)
    case None
    then show ?thesis using rs that by simp
  next
    case (Some g)
    then have g: "wf g" "shape g = ps" using sc by simp_all
    have "broadcasts_into (shape g) (shape ?rs)" using into(2) g rs by simp
    from tbinop_into_tget[OF this rs(1), of fmul]
    obtain r where "tbinop fmul ?rs g = Inr r" "shape r = shape ?rs" "wf r" by blast
    then show ?thesis using that[of r] Some rs unfolding tmul_def by simp
  qed
  have "broadcasts_into (shape inv_t) (shape x)" using into(1) inv_t by simp
  from tbinop_into_tget[OF this x, of fmul]
  obtain x_inv where x_inv: "tmul x inv_t = Inr x_inv" "shape x_inv = shape x" "wf x_inv"
    unfolding tmul_def by blast
  have "broadcasts_into (shape inv_t) (shape mean)"
    using inv_t m by (simp add: broadcasts_into_refl)
  from tbinop_into_tget[OF this m(1), of fmul]
  obtain mean_inv where mean_inv: "tmul mean inv_t = Inr mean_inv" "shape mean_inv = ms"
      "wf mean_inv"
    unfolding tmul_def using m by auto
  obtain shift where shift:
      "(case offset of None \<Rightarrow> Inr (tmap (\<lambda>v. fsub (Fin 0) v) mean_inv)
        | Some b \<Rightarrow> tsub b mean_inv) = Inr shift"
      "shape shift = ms" "wf shift"
  proof (cases offset)
    case None
    then show ?thesis using mean_inv that by (simp add: tmap_def wf_def)
  next
    case (Some b)
    then have b: "wf b" "shape b = ps" using off by simp_all
    have "broadcasts_into (shape b) (shape mean_inv)" using into(2) b mean_inv by simp
    from tbinop_into_tget'[OF this mean_inv(3), of fsub]
    obtain r where "tbinop fsub b mean_inv = Inr r" "shape r = shape mean_inv" "wf r" by blast
    then show ?thesis using that[of r] Some mean_inv unfolding tsub_def by simp
  qed
  have "broadcasts_into (shape shift) (shape x_inv)" using into(1) shift x_inv by simp
  from tbinop_into_tget[OF this x_inv(3), of fadd]
  obtain out where out: "tadd x_inv shift = Inr out" "shape out = shape x_inv" "wf out"
    unfolding tadd_def by blast
  have "batch_normalization x mean variance offset scl eps = Inr out"
    unfolding batch_normalization_def ve thn_Inr inv_t(1) x_inv(1) mean_inv(1) shift(1)
    by (rule out(1))
  then show ?thesis using out x_inv by simp
qed

lemma filter_map_int_known: "filter (\<lambda>d. d \<noteq> - 1) (map int rest) = map int rest"
  by (induction rest) simp_all

lemma filter_map_int_unknown: "filter (\<lambda>d. d = - 1) (map int rest) = []"
  by (induction rest) simp_all

lemma list_ex_map_int_neg: "\<not> list_ex (\<lambda>d. d < 0) (map int rest)"
  by (induction rest) simp_all

lemma prod_list_map_int: "prod_list (map int rest) = int (prod_list rest)"
  by (induction rest) simp_all

lemma map_nat_int: "map (\<lambda>d. nat (if d = - 1 then c else d)) (map int rest) = rest"
  by (induction rest) simp_all

lemma map_nat_int_comp: "map ((\<lambda>d. nat (if d = - 1 then c else d)) \<circ> int) rest = rest"
  by (induction rest) simp_all

lemma reshape_virtual:
  assumes v: "0 < v" and d: "nat v dvd B" and p: "0 < prod_list rest"
    and s: "shape x = B # rest"
  shows "reshape x ([v, - 1] @ map int rest) = Inr (x\<lparr>shape := nat v # B div nat v # rest\<rparr>)"
proof -
  obtain k where k: "B = nat v * k" using d by (auto simp add: dvd_def)
  let ?P = "int (prod_list rest)"
  have tot: "int (prod_list (shape x)) = (v * ?P) * int k"
    using v by (simp add: s k)
  have pp: "v * ?P \<noteq> 0" using v p by simp
  have m: "int (prod_list (shape x)) mod (v * ?P) = 0" unfolding tot by simp
  have dv: "int (prod_list (shape x)) div (v * ?P) = int k"
    unfolding tot using pp by simp
  have kk: "B div nat v = k" using v by (simp add: k)
  have nv: "v \<noteq> - 1" using v by simp
  show ?thesis
    unfolding reshape_def Let_def
    using v nv pp m
    by (simp add: filter_map_int_known filter_map_int_unknown list_ex_map_int_neg
        prod_list_map_int dv kk map_nat_int map_nat_int_comp del: of_nat_mult)
qed

lemma reshape_back:
  assumes v: "0 < v" and d: "nat v dvd B" and p: "0 < prod_list rest"
    and s: "shape y = nat v # B div nat v # rest"
  shows "reshape y (- 1 # map int rest) = Inr (y\<lparr>shape := B # rest\<rparr>)"
proof -
  obtain k where k: "B = nat v * k" using d by (auto simp add: dvd_def)
  let ?P = "int (prod_list rest)"
  have kk: "B div nat v = k" using v by (simp add: k)
  have tot: "int (prod_list (shape y)) = ?P * int B"
    by (simp add: s kk k)
  have pp: "?P \<noteq> 0" using p by simp
  have m: "int (prod_list (shape y)) mod ?P = 0" unfolding tot by simp
  have dv: "int (prod_list (shape y)) div ?P = int B"
    unfolding tot using pp by simp
  show ?thesis
    unfolding reshape_def Let_def
    using pp m
    by (simp add: filter_map_int_known filter_map_int_unknown list_ex_map_int_neg
        prod_list_map_int dv map_nat_int map_nat_int_comp del: of_nat_mult)
qed

lemma virtual_batch_shapes_eq:
  assumes "shape x = B # rest"
  shows "virtual_batch_shapes v x = (- 1 # map int rest, [v, - 1] @ map int rest)"
  using assms by (simp add: virtual_batch_shapes_def Let_def)

lemma upt_two: "[0..<n + 2] = 0 # 1 # [2..<n + 2]"
proof -
  have "[0..<Suc (Suc n)] = 0 # Suc 0 # [Suc (Suc 0)..<Suc (Suc n)]"
    by (simp add: upt_conv_Cons)
  then show ?thesis by (simp add: numeral_2_eq_2)
qed

lemma reduction_axes_virtual:
  assumes "virtual_batch_size l = Some v" and "\<forall>a\<in>set ax. 2 \<le> a"
  shows "reduction_axes_of l ax (n + 2)
         = Inr (0 # filter (\<lambda>i. int i \<notin> set ax) [2..<n + 2])"
proof -
  have z: "int 0 \<notin> set ax" "int 1 \<notin> set ax" using assms(2) by auto
  have "filter (\<lambda>i. int i \<notin> set ax) [0..<n + 2]
        = 0 # 1 # filter (\<lambda>i. int i \<notin> set ax) [2..<n + 2]"
    unfolding upt_two using z by simp
  then show ?thesis
    unfolding reduction_axes_of_def Let_def using assms(1) by simp
qed

lemma call_training_branch_virtual:
  assumes vb: "virtual_batch_size l = Some v"
    and path: "\<not> renorm l" "adjustment l = None"
    and mo: "moments l x red True = Inr (bm, bv)"
    and nm: "reduce_mean bm [1] True = Inr nm" "reduce_mean bv [1] True = Inr nv"
    and bsz: "call_input_batch_size l x = Inr ibs"
    and vars: "moving_mean l = Some mm" "moving_variance l = Some mv"
    and up: "assign_moving_average mm nm (momentum l) ibs = Inr mm'"
      "assign_moving_average mv nv (momentum l) ibs = Inr mv'"
  shows "call_training_branch l x (PyBool True) ax ndims red bshape s0 o0
         = Inr (bm, bv, s0, o0, l\<lparr>moving_mean := Some mm', moving_variance := Some mv'\<rparr>,
                [(MovingMean, mm'), (MovingVariance, mv')])"
  unfolding call_training_branch_def Let_def
  using assms
  by (simp add: call_adjustment_def thn_def run_value_def the_var_def call_new_moments_def
      call_renorm_def mean_update_def variance_update_def)

lemma broadcast_opt_full_rank:
  assumes "case p of None \<Rightarrow> True | Some g \<Rightarrow> length (shape g) = ndims"
  shows "broadcast_opt ndims red bshape p = Inr p"
  using assms
  by (cases p) (simp_all add: broadcast_opt_def broadcast_tensor_def thn_def)

lemma broadcast_tensor_full_rank:
  assumes "length (shape t) = ndims"
  shows "broadcast_tensor ndims red bshape t = Inr t"
  using assms by (simp add: broadcast_tensor_def)

lemma call_generic_training:
  assumes ax: "axis l = AxisList ax"
    and ra: "reduction_axes_of l ax (length (shape x)) = Inr red"
    and bs: "call_broadcast_shape ax (shape x) = Inr bshape"
    and g: "case gamma l of None \<Rightarrow> True | Some g \<Rightarrow> length (shape g) = length (shape x)"
    and b: "case beta l of None \<Rightarrow> True | Some g \<Rightarrow> length (shape g) = length (shape x)"
    and tb: "call_training_branch l x (PyBool True) ax (length (shape x)) red bshape
               (gamma l) (beta l) = Inr (bm, bv, sc, off, l', ups)"
    and r: "length (shape bm) = length (shape x)" "length (shape bv) = length (shape x)"
    and bn: "batch_normalization x bm bv off sc (epsilon l) = Inr out" "shape out = shape x"
  shows "call_generic l x (PyBool True)
         = Inr \<lparr>outputs = out, layer_after = l', updates = ups\<rparr>"
proof -
  have a: "call_axis l = Inr ax" by (simp add: call_axis_def ax)
  have cs: "call_statistics l x (PyBool True) ax (length (shape x)) red bshape
              (gamma l) (beta l) = Inr (bm, bv, sc, off, l', ups)"
    by (simp add: call_statistics_def constant_value_def tb)
  show ?thesis
    unfolding call_generic_def Let_def a thn_Inr ra bs
      broadcast_opt_full_rank[OF g] broadcast_opt_full_rank[OF b] cs prod.case
      broadcast_tensor_full_rank[OF r(1)] broadcast_tensor_full_rank[OF r(2)] bn(1)
    using bn(2) by simp
qed

text \<open>
  Claim C4, as stated, fails: dimension 1 of the reshaped input is not among the reduced
  axes (\<open>del reduction_axes[1]\<close>). A layer with a virtual batch size of 2, called in
  training on the batch \<open>[[1], [2], [3], [4]]\<close>, reduces axis 0 only: the samples 1 and
  3 are normalized with their own mean 2, the samples 2 and 4 with their own mean 3, and
  the inputs 1 and 2 both give \<open>-1/2\<close>. With dimension 1 reduced over, alone or as
  well, 1 and 2 would share the statistics and give two different outputs.
\<close>

theorem virtual_batch_dimension_one_not_reduced:
  "reduction_axes_of virtual_batch_layer [2] 3 = Inr [0]
   \<and> call_outputs (call no_kernel_engine virtual_batch_layer
        \<lparr>shape = [4, 1], vals = [Fin 1, Fin 2, Fin 3, Fin 4]\<rparr> (Some (PyBool True)))
     = Inr \<lparr>shape = [4, 1], vals = [Fin (- 1 / 2), Fin (- 1 / 2), Fin (1 / 2), Fin (1 / 2)]\<rparr>"
proof -
  have "reduction_axes_of virtual_batch_layer [2] 3 = Inr [0]"
    by (simp add: reduction_axes_of_def virtual_batch_layer_fields upt_numeral_eval)
  moreover have "call_outputs (call no_kernel_engine virtual_batch_layer
        \<lparr>shape = [4, 1], vals = [Fin 1, Fin 2, Fin 3, Fin 4]\<rparr> (Some (PyBool True)))
     = Inr \<lparr>shape = [4, 1], vals = [Fin (- 1 / 2), Fin (- 1 / 2), Fin (1 / 2), Fin (1 / 2)]\<rparr>"
    unfolding call_outputs_def virtual_batch_call by simp
  ultimately show ?thesis by (rule conjI)
qed

text \<open>
  Claim C4, amended. For every input whose batch dimension \<open>B\<close> is a multiple of a
  configured positive virtual batch size \<open>V\<close>, a call in training on the generic path
  (no renormalization, no adjustment, parameters of the shape \<open>build\<close> gives them)
  succeeds and: reshapes the input to \<open>[V, B/V, ...]\<close>; reduces dimension 0 and every
  dimension from 2 on that is not an axis of the layer, and leaves dimension 1 out of the
  reduced axes, so that the batch statistics keep dimension 1 with its size \<open>B/V\<close>, one
  mean and variance for each of the \<open>B/V\<close> virtual sub-batches of \<open>V\<close> samples;
  normalizes with these statistics and the one gamma and beta; performs one update of
  each moving statistic, whose value is the mean over dimension 1 of the per-sub-batch
  statistics; and gives the normalized tensor in the original input shape.
\<close>

theorem virtual_batch_call_statistics:
  assumes vb: "virtual_batch_size l = Some v" "0 < v" "nat v dvd B"
    and x: "wf x" "shape x = B # rest" "0 < prod_list rest"
    and ax: "axis l = AxisList ax" "ax \<noteq> []"
      "\<forall>a\<in>set ax. 2 \<le> a \<and> a < int (length rest) + 2"
    and path: "fused l \<noteq> Some True" "\<not> renorm l" "adjustment l = None" "trainable l"
    and vars: "moving_mean l = Some mm" "wf mm" "shape mm = ps"
      "moving_variance l = Some mv" "wf mv" "shape mv = ps"
    and params: "case gamma l of None \<Rightarrow> True | Some g \<Rightarrow> wf g \<and> shape g = ps"
      "case beta l of None \<Rightarrow> True | Some b \<Rightarrow> wf b \<and> shape b = ps"
    and ps: "ps = reduced_shape (nat v # B div nat v # rest)
                    (filter (\<lambda>i. int i \<notin> set ax) [0..<length rest + 2])"
    and x': "x' = x\<lparr>shape := nat v # B div nat v # rest\<rparr>"
    and red: "red = 0 # filter (\<lambda>i. int i \<notin> set ax) [2..<length rest + 2]"
    and ibs: "ibs = (if support_zero_size_input l then Some (nat v) else None)"
  shows "\<exists>bm bv nm nv mm' mv' out.
      reshape x (snd (virtual_batch_shapes v x)) = Inr x'
    \<and> reduction_axes_of l ax (length (shape x')) = Inr red
    \<and> nn_moments x' red True = Inr (bm, bv)
    \<and> shape bm = reduced_shape (shape x') red \<and> shape bm ! 1 = B div nat v
    \<and> shape bv = shape bm
    \<and> reduce_mean bm [1] True = Inr nm \<and> reduce_mean bv [1] True = Inr nv
    \<and> assign_moving_average mm nm (momentum l) ibs = Inr mm'
    \<and> assign_moving_average mv nv (momentum l) ibs = Inr mv'
    \<and> batch_normalization x' bm bv (beta l) (gamma l) (epsilon l) = Inr out
    \<and> call eng l x (Some (PyBool True))
      = Inr \<lparr>outputs = out\<lparr>shape := shape x\<rparr>,
             layer_after = l\<lparr>moving_mean := Some mm', moving_variance := Some mv'\<rparr>,
             updates = [(MovingMean, mm'), (MovingVariance, mv')]\<rparr>"
proof -
  let ?V = "nat v"
  let ?K = "B div nat v"
  let ?s = "?V # ?K # rest"
  let ?P = "\<lambda>i. int i \<notin> set ax"
  have V: "0 < ?V" using vb(2) by simp
  have sx': "shape x' = ?s" by (simp add: x')
  have VK: "?V * ?K = B" using vb(3) by simp
  have "prod_list ?s = (?V * ?K) * prod_list rest" by simp
  then have pr: "prod_list ?s = B * prod_list rest" unfolding VK .
  have "length (vals x') = B * prod_list rest" using x(1) x(2) by (simp add: wf_def x')
  then have wx': "wf x'" unfolding wf_def sx' pr .
  have rs0: "reshape x ([v, - 1] @ map int rest) = Inr x'"
    unfolding x' by (rule reshape_virtual[OF vb(2) vb(3) x(3) x(2)])
  have rs: "reshape x (snd (virtual_batch_shapes v x)) = Inr x'"
    unfolding virtual_batch_shapes_eq[OF x(2)] snd_conv by (rule rs0)
  have len: "length (shape x') = length rest + 2" by (simp add: sx')
  have a2: "\<forall>a\<in>set ax. 2 \<le> a" using ax(3) by simp
  have ra: "reduction_axes_of l ax (length (shape x')) = Inr red"
    unfolding len red by (rule reduction_axes_virtual[OF vb(1) a2])
  have redok: "list_all (\<lambda>a. a < length (shape x')) red"
    unfolding len red by (auto simp add: list_all_iff)
  from nn_moments_keep[OF redok]
  obtain bm bv where mo: "nn_moments x' red True = Inr (bm, bv)"
      "shape bm = reduced_shape (shape x') red" "shape bv = reduced_shape (shape x') red"
      "wf bm" "wf bv"
    by blast
  have mo': "moments l x' red True = Inr (bm, bv)"
    by (rule moments_positive_batch[OF sx' V mo(1)]) (simp add: mo)
  have notin: "1 \<notin> set red" unfolding red by simp
  have "1 < length ?s" by simp
  then have "reduced_shape ?s red ! 1 = (if 1 \<in> set red then 1 else ?s ! 1)"
    by (rule reduced_shape_nth)
  then have "reduced_shape ?s red ! 1 = ?K"
    using notin by simp
  then have keep: "shape bm ! 1 = ?K" by (simp add: mo sx')
  have one: "list_all (\<lambda>a. a < length (shape bm)) [1]"
    by (simp add: mo reduced_shape_length len)
  from reduce_mean_keep[OF one]
  obtain nm where nm: "reduce_mean bm [1] True = Inr nm"
      "shape nm = reduced_shape (shape bm) [1]" "wf nm"
    by blast
  have one': "list_all (\<lambda>a. a < length (shape bv)) [1]"
    by (simp add: mo reduced_shape_length len)
  from reduce_mean_keep[OF one']
  obtain nv where nv: "reduce_mean bv [1] True = Inr nv"
      "shape nv = reduced_shape (shape bv) [1]" "wf nv"
    by blast
  have sets: "set ([1] @ red) = set (filter ?P [0..<length rest + 2])"
    unfolding red upt_two using a2 by auto
  have pseq: "reduced_shape (reduced_shape ?s red) [1] = ps"
    unfolding reduced_shape_twice ps by (rule reduced_shape_cong_set[OF sets])
  have snm: "shape nm = shape mm" unfolding nm(2) mo(2) sx' pseq vars(3) by (rule refl)
  have snv: "shape nv = shape mv" unfolding nv(2) mo(3) sx' pseq vars(6) by (rule refl)
  obtain mm' where up1: "assign_moving_average mm nm (momentum l) ibs = Inr mm'"
    using assign_moving_average_same[OF vars(2) nm(3) snm] by simp
  obtain mv' where up2: "assign_moving_average mv nv (momentum l) ibs = Inr mv'"
    using assign_moving_average_same[OF vars(5) nv(3) snv] by simp
  have bsz: "call_input_batch_size l x' = Inr ibs"
    by (simp add: call_input_batch_size_def batch_size_def sx' ibs thn_def)
  let ?l' = "l\<lparr>moving_mean := Some mm', moving_variance := Some mv'\<rparr>"
  let ?ups = "[(MovingMean, mm'), (MovingVariance, mv')]"
  have tb: "call_training_branch l x' (PyBool True) ax ndims red bshape s0 o0
            = Inr (bm, bv, s0, o0, ?l', ?ups)" for ndims bshape s0 o0
    by (rule call_training_branch_virtual[OF vb(1) path(2) path(3) mo' nm(1) nv(1) bsz
          vars(1) vars(4) up1 up2])
  have into1: "broadcasts_into (reduced_shape (shape x') red) (shape x')"
    by (rule broadcasts_into_reduced)
  have into2: "broadcasts_into ps (reduced_shape (shape x') red)"
    unfolding pseq[symmetric] sx' by (rule broadcasts_into_reduced)
  from batch_normalization_ok[OF wx' mo(4) mo(2) mo(5) mo(3) into1 into2 params(2) params(1)]
  obtain out where out: "batch_normalization x' bm bv (beta l) (gamma l) (epsilon l) = Inr out"
      "shape out = shape x'" "wf out"
    by blast
  obtain a0 as where axc: "ax = a0 # as" using ax(2) by (cases ax) auto
  have "2 \<le> a0" "a0 < int (length rest) + 2" using ax(3) axc by auto
  then obtain bshape where bsh: "call_broadcast_shape ax (shape x') = Inr bshape"
    by (simp add: call_broadcast_shape_def Let_def axc sx')
  have lps: "length ps = length rest + 2" by (simp add: ps reduced_shape_length)
  have g: "case gamma l of None \<Rightarrow> True | Some g \<Rightarrow> length (shape g) = length (shape x')"
    using params(1) lps len by (cases "gamma l") simp_all
  have b: "case beta l of None \<Rightarrow> True | Some g \<Rightarrow> length (shape g) = length (shape x')"
    using params(2) lps len by (cases "beta l") simp_all
  have r1: "length (shape bm) = length (shape x')" by (simp add: mo reduced_shape_length)
  have r2: "length (shape bv) = length (shape x')" by (simp add: mo reduced_shape_length)
  have cg: "call_generic l x' (PyBool True)
            = Inr \<lparr>outputs = out, layer_after = ?l', updates = ?ups\<rparr>"
    by (rule call_generic_training[OF ax(1) ra bsh g b tb r1 r2 out(1) out(2)])
  have so: "shape out = ?V # ?K # rest" by (simp add: out sx')
  have rb: "reshape out (- 1 # map int rest) = Inr (out\<lparr>shape := B # rest\<rparr>)"
    by (rule reshape_back[OF vb(2) vb(3) x(3) so])
  have t: "get_training_value l (Some (PyBool True)) = PyBool True"
    using path(4) by (simp add: get_training_value_def Let_def)
  have vs: "virtual_batch_shapes v x = (- 1 # map int rest, [v, - 1] @ map int rest)"
    by (rule virtual_batch_shapes_eq[OF x(2)])
  have gen: "(if fused l = Some True then fused_batch_norm_call eng l x' (PyBool True)
              else call_generic l x' (PyBool True))
             = Inr \<lparr>outputs = out, layer_after = ?l', updates = ?ups\<rparr>"
    using path(1) cg by simp
  have call: "call eng l x (Some (PyBool True))
      = Inr \<lparr>outputs = out\<lparr>shape := shape x\<rparr>, layer_after = ?l', updates = ?ups\<rparr>"
    unfolding call_def Let_def t vb(1) option.case vs prod.case rs0 thn_Inr gen
    by (simp add: rb thn_Inr x(2))
  have sb: "shape bv = shape bm" unfolding mo(2) mo(3) by (rule refl)
  show ?thesis
    apply (rule exI[of _ bm], rule exI[of _ bv], rule exI[of _ nm], rule exI[of _ nv])
    apply (rule exI[of _ mm'], rule exI[of _ mv'], rule exI[of _ out])
    apply (intro conjI)
    subgoal by (rule rs)
    subgoal by (rule ra)
    subgoal by (rule mo(1))
    subgoal by (rule mo(2))
    subgoal by (rule keep)
    subgoal by (rule sb)
    subgoal by (rule nm(1))
    subgoal by (rule nv(1))
    subgoal by (rule up1)
    subgoal by (rule up2)
    subgoal by (rule out(1))
    subgoal by (rule call)
    done
qed

theorem virtual_batch_call_statistics_witness:
  "\<exists>bm bv nm nv mm' mv' out.
      reshape \<lparr>shape = [4, 1], vals = [Fin 1, Fin 2, Fin 3, Fin 4]\<rparr>
        (snd (virtual_batch_shapes 2 \<lparr>shape = [4, 1], vals = [Fin 1, Fin 2, Fin 3, Fin 4]\<rparr>))
      = Inr \<lparr>shape = [2, 2, 1], vals = [Fin 1, Fin 2, Fin 3, Fin 4]\<rparr>
    \<and> reduction_axes_of virtual_batch_layer [2]
        (length (shape \<lparr>shape = [2, 2, 1], vals = [Fin 1, Fin 2, Fin 3, Fin 4]\<rparr>)) = Inr [0]
    \<and> nn_moments \<lparr>shape = [2, 2, 1], vals = [Fin 1, Fin 2, Fin 3, Fin 4]\<rparr> [0] True = Inr (bm, bv)
    \<and> shape bm = reduced_shape (shape \<lparr>shape = [2, 2, 1], vals = [Fin 1, Fin 2, Fin 3, Fin 4]\<rparr>) [0]
    \<and> shape bm ! 1 = 4 div nat 2
    \<and> shape bv = shape bm
    \<and> reduce_mean bm [1] True = Inr nm \<and> reduce_mean bv [1] True = Inr nv
    \<and> assign_moving_average (tfill [1, 1, 1] 0) nm (momentum virtual_batch_layer) None = Inr mm'
    \<and> assign_moving_average (tfill [1, 1, 1] 1) nv (momentum virtual_batch_layer) None = Inr mv'
    \<and> batch_normalization \<lparr>shape = [2, 2, 1], vals = [Fin 1, Fin 2, Fin 3, Fin 4]\<rparr> bm bv
        (beta virtual_batch_layer) (gamma virtual_batch_layer) (epsilon virtual_batch_layer)
      = Inr out
    \<and> call no_kernel_engine virtual_batch_layer
        \<lparr>shape = [4, 1], vals = [Fin 1, Fin 2, Fin 3, Fin 4]\<rparr> (Some (PyBool True))
      = Inr \<lparr>outputs = out\<lparr>shape := shape \<lparr>shape = [4, 1], vals = [Fin 1, Fin 2, Fin 3, Fin 4]\<rparr>\<rparr>,
             layer_after = virtual_batch_layer
               \<lparr>moving_mean := Some mm', moving_variance := Some mv'\<rparr>,
             updates = [(MovingMean, mm'), (MovingVariance, mv')]\<rparr>"
  by (rule virtual_batch_call_statistics[where l = virtual_batch_layer and v = 2 and B = 4
        and rest = "[1]" and ax = "[2]" and ps = "[1, 1, 1]" and ibs = None])
    (simp_all add: virtual_batch_layer_fields wf_def tfill_def reduced_shape_def)

end
